theory Spec2Isabelle
  imports Complex_Main "HOL-Library.AList"
begin

section \<open>Data model\<close>

text \<open>
  The development embeds \<^verbatim>\<open>src/src/taxman.py\<close> (class \<^verbatim>\<open>Taxman\<close>).

  Values of \<^verbatim>\<open>decimal.Decimal\<close> are kept abstract: they are elements of a type
  \<open>'d\<close> that only carries the operations the code applies to them (\<open>0\<close>, \<open>+\<close>,
  \<open>-\<close>, \<open>*\<close>, \<open>/\<close>, comparison). No algebraic law is assumed in the definitions, so what
  is proved about the classification holds for every arithmetic, rounded or exact.
  Where a statement needs exact ordered arithmetic, the type is constrained in that
  statement. Concrete evaluations use \<open>rat\<close>.
\<close>

text \<open>
  A UTC \<^verbatim>\<open>datetime\<close>: the calendar year (the only component the code reads) and the
  position of the instant inside that year.
\<close>

record datetime =
  year :: int
  in_year :: int

definition dt_le :: "datetime \<Rightarrow> datetime \<Rightarrow> bool" where
  "dt_le a b = (year a < year b \<or> (year a = year b \<and> in_year a \<le> in_year b))"

text \<open>
  The subclasses of \<^verbatim>\<open>transaction.Operation\<close> that \<^verbatim>\<open>taxman.py\<close> tests with
  \<^verbatim>\<open>isinstance\<close>, and one more variant for every other subclass.
\<close>

datatype op_kind =
    Fee | CoinLend | CoinLendEnd | Staking | StakingEnd | Buy | Sell
  | CoinLendInterest | StakingInterest | Airdrop | Commission | Deposit | Withdrawal
  | Other_Operation

record 'd operation =
  kind :: op_kind
  utc_time :: datetime
  platform :: string
  change :: 'd
  coin :: string
  line :: int
  file_path :: string

record 'd SoldCoin =
  sc_op :: "'d operation"
  sold :: 'd

text \<open>\<^verbatim>\<open>book.DepositMatch\<close>, with the attributes \<^verbatim>\<open>findWithdrawnCoins\<close> reads.\<close>

record 'd DepositMatch =
  source_platform :: string
  source_utc_time :: datetime
  dest_platform :: string
  dest_utc_time :: datetime
  match_change :: 'd

record 'd Book =
  operations :: "'d operation list"
  depositMatches :: "'d DepositMatch list"

text \<open>
  The taxation type is a string in the source; the constructor
  \<open>Ausserhalb_des_Steuerjahres\<close> stands for the suffix that is appended with \<^verbatim>\<open>+=\<close>.
\<close>

datatype taxation_type =
    Sonstige_Einkuenfte
  | Krypto_Lending_Beginn
  | Krypto_Lending_Ende
  | Krypto_Staking_Beginn
  | Krypto_Staking_Ende
  | Kauf
  | Einkuenfte_aus_Kapitalvermoegen
  | Einkuenfte_aus_sonstigen_Leistungen
  | Airdrop_type
  | Einzahlung
  | Auszahlung
  | Ausserhalb_des_Steuerjahres taxation_type

text \<open>The remark of a tax event, kept structured instead of formatted.\<close>

datatype 'd remark =
    No_remark
  | Portion_remark "('d \<times> datetime \<times> op_kind) list"
  | Buy_remark 'd string 'd string

record 'd TaxEvent =
  taxation_type :: taxation_type
  taxed_gain :: 'd
  tx_op :: "'d operation"
  is_taxable :: bool
  sell_value :: 'd
  real_gain :: 'd
  remark :: "'d remark"

datatype error =
    RuntimeError | NotImplementedError | TypeError | StopIteration | ValueError
  | IndexError | KeyError | DivisionByZero | InvalidOperation | PriceLookupError

datatype principle = FIFO | LIFO

text \<open>
  The module \<^verbatim>\<open>config\<close> is not among the sources; its values are parameters.
  \<open>is_fiat\<close> is \<^verbatim>\<open>misc.is_fiat\<close>, likewise a parameter.
\<close>

record config =
  PRINCIPLE :: principle
  FIAT :: string
  TAX_YEAR :: int
  IS_LONG_TERM :: "datetime \<Rightarrow> datetime \<Rightarrow> bool"
  CALCULATE_VIRTUAL_SELL :: bool
  EXPORT_ALL_EVENTS :: bool
  MULTI_DEPOT :: bool
  is_fiat :: "string \<Rightarrow> bool"

text \<open>
  The pricing oracle \<^verbatim>\<open>PriceData\<close>: \<^verbatim>\<open>get_cost\<close> takes an operation or a sold coin and
  may raise, \<^verbatim>\<open>get_price\<close> takes platform, coin and time.
\<close>

datatype 'd cost_arg = Cost_of_op "'d operation" | Cost_of_sold "'d SoldCoin"

record 'd PriceData =
  get_cost :: "'d cost_arg \<Rightarrow> error + 'd"
  get_price :: "string \<Rightarrow> string \<Rightarrow> datetime \<Rightarrow> error + 'd"

text \<open>Log records: the level and the values the message is formatted from.\<close>

datatype level = DEBUG | WARNING | ERROR

datatype 'd log_msg =
    Msg_text string
  | Msg_type op_kind
  | Msg_bop "'d operation" "'d SoldCoin list option"
  | Msg_unresolved_withdrawal 'd string string datetime
  | Msg_stake_fiat string string datetime
  | Msg_not_enough string int string 'd datetime string
  | Msg_outstanding_fees string 'd string

type_synonym 'd log_record = "level \<times> 'd log_msg"

text \<open>
  A computation yields the log records it emitted, in order, and either the exception
  that ended it or its value.
\<close>

type_synonym ('d, 'a) res = "'d log_record list \<times> (error + 'a)"

definition bind_res :: "('d, 'a) res \<Rightarrow> ('a \<Rightarrow> ('d, 'b) res) \<Rightarrow> ('d, 'b) res" where
  "bind_res r f =
     (case r of
        (l, Inl e) \<Rightarrow> (l, Inl e)
      | (l, Inr x) \<Rightarrow> (case f x of (l', r') \<Rightarrow> (l @ l', r')))"

section \<open>Classification: \<^verbatim>\<open>Taxman._evaluate_taxation_GERMANY\<close>\<close>

definition in_tax_year :: "config \<Rightarrow> 'd operation \<Rightarrow> bool" where
  "in_tax_year cfg op = (year (utc_time op) = TAX_YEAR cfg)"

text \<open>Lines 90--103: the flag \<^verbatim>\<open>is_taxable\<close> of one sold coin.\<close>

definition sc_is_taxable :: "config \<Rightarrow> 'd operation \<Rightarrow> 'd SoldCoin \<Rightarrow> bool" where
  "sc_is_taxable cfg op sc =
     (\<not> IS_LONG_TERM cfg (utc_time (sc_op sc)) (utc_time op)
      \<and> \<not> (List.member [Airdrop, CoinLendInterest, StakingInterest, Commission] (kind (sc_op sc))
           \<and> \<not> coin (sc_op sc) = FIAT cfg))"

text \<open>
  Division of decimals: the default context raises for a zero divisor
  (\<^verbatim>\<open>InvalidOperation\<close> for \<open>0 / 0\<close>, \<^verbatim>\<open>DivisionByZero\<close> otherwise).
\<close>

definition dec_div :: "'d::{zero,inverse} \<Rightarrow> 'd \<Rightarrow> error + 'd" where
  "dec_div a b =
     (if b = 0 then (if a = 0 then Inl InvalidOperation else Inl DivisionByZero)
      else Inr (a / b))"

text \<open>The local variables of the inner \<^verbatim>\<open>evaluate_sell\<close> that the loop updates.\<close>

record 'd sell_state =
  acc_taxed_gain :: 'd
  acc_real_gain :: 'd
  any_sc_is_taxable :: bool
  tx_list :: "'d TaxEvent list"

text \<open>Lines 106--113: the gain of one sold coin, computed only if necessary.\<close>

definition sell_gains ::
  "config \<Rightarrow> ('d::{zero,plus,minus,times,inverse}) PriceData \<Rightarrow> 'd operation \<Rightarrow> 'd \<Rightarrow>
   'd sell_state \<Rightarrow> 'd SoldCoin \<Rightarrow> error + ('d \<times> 'd)" where
  "sell_gains cfg pd op sv st sc =
     (if sc_is_taxable cfg op sc \<or> CALCULATE_VIRTUAL_SELL cfg then
        (case dec_div (sold sc) (change op) of
           Inl e \<Rightarrow> Inl e
         | Inr q \<Rightarrow>
             (case get_cost pd (Cost_of_sold sc) of
                Inl e \<Rightarrow> Inl e
              | Inr sold_coin_cost \<Rightarrow>
                  (let partial_sell_value = q * sv;
                       gain = partial_sell_value - sold_coin_cost
                   in Inr (if sc_is_taxable cfg op sc then acc_taxed_gain st + gain
                           else acc_taxed_gain st,
                           if CALCULATE_VIRTUAL_SELL cfg then acc_real_gain st + gain
                           else acc_real_gain st))))
      else Inr (acc_taxed_gain st, acc_real_gain st))"

definition portion_remark :: "'d SoldCoin \<Rightarrow> 'd \<times> datetime \<times> op_kind" where
  "portion_remark sc = (sold sc, utc_time (sc_op sc), kind (sc_op sc))"

text \<open>Lines 89--131: one pass of the loop over the sold coins.\<close>

definition sell_step ::
  "config \<Rightarrow> ('d::{zero,plus,minus,times,inverse}) PriceData \<Rightarrow> 'd operation \<Rightarrow> 'd \<Rightarrow>
   'd sell_state \<Rightarrow> 'd SoldCoin \<Rightarrow> error + 'd sell_state" where
  "sell_step cfg pd op sv st sc =
     (case sell_gains cfg pd op sv st sc of
        Inl e \<Rightarrow> Inl e
      | Inr (tg, rg) \<Rightarrow>
          Inr \<lparr> acc_taxed_gain = tg,
                acc_real_gain = rg,
                any_sc_is_taxable = (any_sc_is_taxable st \<or> sc_is_taxable cfg op sc),
                tx_list =
                  (if EXPORT_ALL_EVENTS cfg then
                     tx_list st @
                       [\<lparr> taxation_type = Sonstige_Einkuenfte, taxed_gain = tg, tx_op = op,
                          is_taxable = sc_is_taxable cfg op sc, sell_value = sv,
                          real_gain = rg, remark = Portion_remark [portion_remark sc] \<rparr>]
                   else tx_list st) \<rparr>)"

fun sell_loop ::
  "config \<Rightarrow> ('d::{zero,plus,minus,times,inverse}) PriceData \<Rightarrow> 'd operation \<Rightarrow> 'd \<Rightarrow>
   'd sell_state \<Rightarrow> 'd SoldCoin list \<Rightarrow> error + 'd sell_state" where
  "sell_loop cfg pd op sv st [] = Inr st"
| "sell_loop cfg pd op sv st (sc # scs) =
     (case sell_step cfg pd op sv st sc of
        Inl e \<Rightarrow> Inl e
      | Inr st' \<Rightarrow> sell_loop cfg pd op sv st' scs)"

text \<open>
  Lines 75--148: the inner \<^verbatim>\<open>evaluate_sell\<close>. It always returns a list; iterating over
  \<^verbatim>\<open>None\<close> raises \<^verbatim>\<open>TypeError\<close>.
\<close>

definition evaluate_sell ::
  "config \<Rightarrow> ('d::{zero,plus,minus,times,inverse}) PriceData \<Rightarrow> 'd operation \<Rightarrow>
   'd SoldCoin list option \<Rightarrow> error + 'd TaxEvent list" where
  "evaluate_sell cfg pd op sold_coins =
     (case get_cost pd (Cost_of_op op) of
        Inl e \<Rightarrow> Inl e
      | Inr sv \<Rightarrow>
          (case sold_coins of
             None \<Rightarrow> Inl TypeError
           | Some scs \<Rightarrow>
               (case sell_loop cfg pd op sv
                       \<lparr> acc_taxed_gain = 0, acc_real_gain = 0,
                         any_sc_is_taxable = False, tx_list = [] \<rparr> scs of
                  Inl e \<Rightarrow> Inl e
                | Inr st \<Rightarrow>
                    (if \<not> EXPORT_ALL_EVENTS cfg then
                       Inr (tx_list st @
                         [\<lparr> taxation_type = Sonstige_Einkuenfte,
                            taxed_gain = acc_taxed_gain st, tx_op = op,
                            is_taxable = any_sc_is_taxable st, sell_value = sv,
                            real_gain = acc_real_gain st,
                            remark = Portion_remark (map portion_remark scs) \<rparr>])
                     else Inr (tx_list st)))))"

text \<open>
  \<^verbatim>\<open>transaction.TaxEvent(taxation_type, taxed_gain, op, is_taxable)\<close> with the default
  values of the other fields.
\<close>

definition mk_TaxEvent ::
  "taxation_type \<Rightarrow> ('d::zero) \<Rightarrow> 'd operation \<Rightarrow> bool \<Rightarrow> 'd TaxEvent" where
  "mk_TaxEvent tt tg op taxable =
     \<lparr> taxation_type = tt, taxed_gain = tg, tx_op = op, is_taxable = taxable,
       sell_value = 0, real_gain = 0, remark = No_remark \<rparr>"

definition outside_tax_year :: "bool \<Rightarrow> taxation_type \<Rightarrow> taxation_type" where
  "outside_tax_year taxable tt = (if \<not> taxable then Ausserhalb_des_Steuerjahres tt else tt)"

text \<open>
  Lines 150--254: the body of the loop over \<^verbatim>\<open>(op, sold_coins)\<close>. The result is the
  list of tax events the pass adds to \<^verbatim>\<open>self.tax_events\<close>; \<^verbatim>\<open>continue\<close> adds none.
\<close>

definition evaluate_op ::
  "config \<Rightarrow> ('d::{zero,plus,minus,uminus,times,inverse}) PriceData \<Rightarrow> string \<Rightarrow>
   'd operation \<Rightarrow> 'd SoldCoin list option \<Rightarrow> ('d, 'd TaxEvent list) res" where
  "evaluate_op cfg pd cn op sold_coins =
     (case kind op of
        Fee \<Rightarrow>
          (case get_cost pd (Cost_of_op op) of
             Inl e \<Rightarrow> ([], Inl e)
           | Inr c \<Rightarrow>
               ([], Inr [mk_TaxEvent (outside_tax_year (in_tax_year cfg op) Sonstige_Einkuenfte)
                           (- c) op (in_tax_year cfg op)]))
      | CoinLend \<Rightarrow> ([], Inr [mk_TaxEvent Krypto_Lending_Beginn 0 op False])
      | CoinLendEnd \<Rightarrow> ([], Inr [mk_TaxEvent Krypto_Lending_Ende 0 op False])
      | Staking \<Rightarrow> ([], Inr [mk_TaxEvent Krypto_Staking_Beginn 0 op False])
      | StakingEnd \<Rightarrow> ([], Inr [mk_TaxEvent Krypto_Staking_Ende 0 op False])
      | Buy \<Rightarrow>
          (if coin op = FIAT cfg then ([], Inr [])
           else
             (case get_cost pd (Cost_of_op op) of
                Inl e \<Rightarrow> ([], Inl e)
              | Inr cost \<Rightarrow>
                  (case get_price pd (platform op) (coin op) (utc_time op) of
                     Inl e \<Rightarrow> ([], Inl e)
                   | Inr price \<Rightarrow>
                       ([], Inr [(mk_TaxEvent Kauf 0 op False)
                                   \<lparr> remark := Buy_remark cost (FIAT cfg) price (coin op) \<rparr>]))))
      | Sell \<Rightarrow>
          (if coin op = FIAT cfg then ([], Inr [])
           else ([], evaluate_sell cfg pd op sold_coins))
      | CoinLendInterest \<Rightarrow>
          (case get_cost pd (Cost_of_op op) of
             Inl e \<Rightarrow> ([], Inl e)
           | Inr c \<Rightarrow>
               ([], Inr [mk_TaxEvent
                           (outside_tax_year (in_tax_year cfg op)
                              (if is_fiat cfg cn then Einkuenfte_aus_Kapitalvermoegen
                               else Einkuenfte_aus_sonstigen_Leistungen))
                           c op (in_tax_year cfg op)]))
      | StakingInterest \<Rightarrow>
          (if is_fiat cfg cn then
             ([(ERROR, Msg_stake_fiat cn (platform op) (utc_time op))], Inl RuntimeError)
           else
             (case get_cost pd (Cost_of_op op) of
                Inl e \<Rightarrow> ([], Inl e)
              | Inr c \<Rightarrow>
                  ([], Inr [mk_TaxEvent
                              (outside_tax_year (in_tax_year cfg op)
                                 Einkuenfte_aus_sonstigen_Leistungen)
                              c op (in_tax_year cfg op)])))
      | Airdrop \<Rightarrow>
          (case get_cost pd (Cost_of_op op) of
             Inl e \<Rightarrow> ([], Inl e)
           | Inr rg \<Rightarrow> ([], Inr [(mk_TaxEvent Airdrop_type 0 op False) \<lparr> real_gain := rg \<rparr>]))
      | Commission \<Rightarrow>
          (case get_cost pd (Cost_of_op op) of
             Inl e \<Rightarrow> ([], Inl e)
           | Inr c \<Rightarrow>
               ([], Inr [mk_TaxEvent
                           (outside_tax_year (in_tax_year cfg op)
                              Einkuenfte_aus_sonstigen_Leistungen)
                           c op (in_tax_year cfg op)]))
      | Deposit \<Rightarrow>
          (if coin op = FIAT cfg then ([], Inr [])
           else ([], Inr [mk_TaxEvent Einzahlung 0 op False]))
      | Withdrawal \<Rightarrow>
          ((if cn \<noteq> FIAT cfg then
              [(WARNING, Msg_unresolved_withdrawal (change op) cn (platform op) (utc_time op))]
            else []),
           Inr [mk_TaxEvent Auszahlung 0 op False])
      | Other_Operation \<Rightarrow> ([], Inl NotImplementedError))"


text \<open>
  What the loop \<^verbatim>\<open>for op, sold_coins in sell_operations\<close> can be handed: a list of
  pairs, as the signature of \<^verbatim>\<open>_evaluate_taxation_GERMANY\<close> announces, or a dictionary
  from platforms to such lists (\<^verbatim>\<open>BalancedOps\<close>), as \<^verbatim>\<open>evaluate_taxation\<close> passes.
  Iterating over a dictionary yields its keys.
\<close>

type_synonym 'd balanced_op = "'d operation \<times> 'd SoldCoin list option"

datatype 'd sell_operations =
    Pair_list "'d balanced_op list"
  | Platform_dict "(string \<times> 'd balanced_op list) list"

datatype 'd loop_item = Item_pair "'d operation" "'d SoldCoin list option" | Item_str string

fun items_of :: "'d sell_operations \<Rightarrow> 'd loop_item list" where
  "items_of (Pair_list bops) = map (\<lambda>(op, sold_coins). Item_pair op sold_coins) bops"
| "items_of (Platform_dict d) = map (\<lambda>(p, bops). Item_str p) d"

text \<open>
  Unpacking a string into \<^verbatim>\<open>op, sold_coins\<close> raises \<^verbatim>\<open>ValueError\<close> unless it has two
  characters; then \<^verbatim>\<open>op\<close> is a string, no \<^verbatim>\<open>isinstance\<close> test holds and the last branch
  raises \<^verbatim>\<open>NotImplementedError\<close>.
\<close>

fun evaluate_item ::
  "config \<Rightarrow> ('d::{zero,plus,minus,uminus,times,inverse}) PriceData \<Rightarrow> string \<Rightarrow>
   'd loop_item \<Rightarrow> ('d, 'd TaxEvent list) res" where
  "evaluate_item cfg pd cn (Item_pair op sold_coins) = evaluate_op cfg pd cn op sold_coins"
| "evaluate_item cfg pd cn (Item_str s) =
     (if length s \<noteq> 2 then ([], Inl ValueError) else ([], Inl NotImplementedError))"

fun evaluate_items ::
  "config \<Rightarrow> ('d::{zero,plus,minus,uminus,times,inverse}) PriceData \<Rightarrow> string \<Rightarrow>
   'd loop_item list \<Rightarrow> ('d, 'd TaxEvent list) res" where
  "evaluate_items cfg pd cn [] = ([], Inr [])"
| "evaluate_items cfg pd cn (it # its) =
     (case evaluate_item cfg pd cn it of
        (l, Inl e) \<Rightarrow> (l, Inl e)
      | (l, Inr evs) \<Rightarrow>
          (case evaluate_items cfg pd cn its of
             (l', Inl e) \<Rightarrow> (l @ l', Inl e)
           | (l', Inr rest) \<Rightarrow> (l @ l', Inr (evs @ rest))))"

text \<open>
  \<^verbatim>\<open>Taxman._evaluate_taxation_GERMANY\<close>: the tax events it appends to
  \<^verbatim>\<open>self.tax_events\<close>.
\<close>

definition evaluate_taxation_GERMANY ::
  "config \<Rightarrow> ('d::{zero,plus,minus,uminus,times,inverse}) PriceData \<Rightarrow> string \<Rightarrow>
   'd sell_operations \<Rightarrow> ('d, 'd TaxEvent list) res" where
  "evaluate_taxation_GERMANY cfg pd cn sell_operations =
     evaluate_items cfg pd cn (items_of sell_operations)"

section \<open>The balance queue\<close>

text \<open>
  The module \<^verbatim>\<open>balance_queue\<close> is not among the sources. Its queue is modelled from
  section 4.1 of the specification (LotQueue).
\<close>

record 'd Lot =
  origin :: "'d operation"
  remaining :: 'd

record 'd BalanceQueue =
  queue :: "'d Lot list"
  buffer_fee :: 'd

definition empty_queue :: "('d::zero) BalanceQueue" where
  "empty_queue = \<lparr> queue = [], buffer_fee = 0 \<rparr>"

text \<open>
  Modelled from the spec: \<^verbatim>\<open>BalanceQueue.sell\<close> is missing; this is \<open>consume\<close> of
  section 4.1: it walks the queue in order, takes from each lot up to its remaining
  amount until the amount is exhausted or the queue is empty, removes the lots it
  drained and returns the sold portions, the unmet amount and the queue.
\<close>

fun consume ::
  "('d::{zero,ord,minus}) \<Rightarrow> 'd Lot list \<Rightarrow> 'd SoldCoin list \<times> 'd \<times> 'd Lot list" where
  "consume amount [] = ([], amount, [])"
| "consume amount (l # q) =
     (if amount \<le> 0 then ([], amount, l # q)
      else if amount < remaining l then
        ([\<lparr> sc_op = origin l, sold = amount \<rparr>], 0,
         l \<lparr> remaining := remaining l - amount \<rparr> # q)
      else
        (case consume (amount - remaining l) q of
           (scs, shortfall, q') \<Rightarrow>
             (\<lparr> sc_op = origin l, sold = remaining l \<rparr> # scs, shortfall, q')))"

text \<open>
  Modelled from the spec: \<^verbatim>\<open>BalanceQueue.remove_fee\<close> is missing; this is
  \<open>consume_fee\<close> of section 4.1: the same consumption, the shortfall being added to the
  fee buffer of the queue.
\<close>

definition remove_fee ::
  "('d::{zero,ord,plus,minus}) \<Rightarrow> 'd BalanceQueue \<Rightarrow> 'd SoldCoin list \<times> 'd BalanceQueue" where
  "remove_fee fee bq =
     (case consume fee (queue bq) of
        (scs, shortfall, q') \<Rightarrow>
          (scs, bq \<lparr> queue := q', buffer_fee := buffer_fee bq + shortfall \<rparr>))"

text \<open>
  Modelled from the spec: \<^verbatim>\<open>BalanceQueue.put\<close> is missing; this is \<open>acquire\<close> of
  section 4.1: the new lot goes to the tail (FIFO) or becomes the head (LIFO), and a
  fee buffer that is not zero is settled against the queue at once.
\<close>

definition put ::
  "principle \<Rightarrow> ('d::{zero,ord,plus,minus}) operation \<Rightarrow> 'd BalanceQueue \<Rightarrow> 'd BalanceQueue" where
  "put pr op bq =
     (let lot = \<lparr> origin = op, remaining = change op \<rparr>;
          q = (case pr of FIFO \<Rightarrow> queue bq @ [lot] | LIFO \<Rightarrow> lot # queue bq)
      in if buffer_fee bq \<noteq> 0 then
           snd (remove_fee (buffer_fee bq) (bq \<lparr> queue := q, buffer_fee := 0 \<rparr>))
         else bq \<lparr> queue := q \<rparr>)"

section \<open>Replay: \<^verbatim>\<open>Taxman._balance_coin\<close>\<close>

text \<open>
  Modelled from the spec: \<^verbatim>\<open>misc.group_by\<close> is missing; it groups a list by an
  attribute into a dictionary (one walk per platform, section 4.3), here an
  association list in the order in which the keys first occur, each group in the order
  of the list.
\<close>

definition group_add :: "('a \<Rightarrow> 'k) \<Rightarrow> ('k \<times> 'a list) list \<Rightarrow> 'a \<Rightarrow> ('k \<times> 'a list) list" where
  "group_add key d e =
     (case map_of d (key e) of
        None \<Rightarrow> d @ [(key e, [e])]
      | Some es \<Rightarrow> AList.update (key e) (es @ [e]) d)"

definition group_by :: "('a \<Rightarrow> 'k) \<Rightarrow> 'a list \<Rightarrow> ('k \<times> 'a list) list" where
  "group_by key lst = foldl (group_add key) [] lst"

text \<open>
  Modelled from the spec: \<^verbatim>\<open>transaction.sort_operations\<close> is missing; with the key
  \<^verbatim>\<open>utc_time\<close> it sorts by ascending time and keeps the order of operations of equal
  time (section 4.3, section 6).
\<close>

fun insert_by_time :: "'d operation \<Rightarrow> 'd operation list \<Rightarrow> 'd operation list" where
  "insert_by_time x [] = [x]"
| "insert_by_time x (y # ys) =
     (if dt_le (utc_time x) (utc_time y) then x # y # ys else y # insert_by_time x ys)"

definition sort_operations :: "'d operation list \<Rightarrow> 'd operation list" where
  "sort_operations ops = foldr insert_by_time ops []"

record 'd replay_state =
  platform_balance :: "(string \<times> 'd BalanceQueue) list"
  platform_balanced_ops :: "(string \<times> 'd balanced_op list) list"
  withdrawals :: "('d operation \<times> 'd SoldCoin list) list"

text \<open>Lines 295--314: the inner \<^verbatim>\<open>evaluate_sell\<close> of \<^verbatim>\<open>_balance_coin\<close>.\<close>

definition balance_evaluate_sell ::
  "string \<Rightarrow> ('d::{zero,ord,minus}) operation \<Rightarrow> 'd BalanceQueue \<Rightarrow>
   ('d, 'd SoldCoin list \<times> 'd BalanceQueue) res" where
  "balance_evaluate_sell cn op balance =
     (case consume (change op) (queue balance) of
        (sold_coins, unsold_coins, q') \<Rightarrow>
          (if unsold_coins \<noteq> 0 then
             ([(ERROR, Msg_not_enough (file_path op) (line op) cn unsold_coins
                         (utc_time op) (platform op))],
              Inl RuntimeError)
           else ([], Inr (sold_coins, balance \<lparr> queue := q' \<rparr>))))"

text \<open>
  Lines 328--357: the effect of one operation on its queue: the log, and the sold
  coins, the queue and the list of withdrawals afterwards.
\<close>

definition balance_op ::
  "config \<Rightarrow> string \<Rightarrow> ('d::{zero,ord,plus,minus}) operation \<Rightarrow> 'd BalanceQueue \<Rightarrow>
   ('d operation \<times> 'd SoldCoin list) list \<Rightarrow>
   ('d, 'd SoldCoin list option \<times> 'd BalanceQueue \<times> ('d operation \<times> 'd SoldCoin list) list) res"
  where
  "balance_op cfg cn op balance ws =
     (case kind op of
        Fee \<Rightarrow>
          (case remove_fee (change op) balance of
             (scs, balance') \<Rightarrow> ([], Inr (Some scs, balance', ws)))
      | CoinLend \<Rightarrow> ([], Inr (None, balance, ws))
      | CoinLendEnd \<Rightarrow> ([], Inr (None, balance, ws))
      | Staking \<Rightarrow> ([], Inr (None, balance, ws))
      | StakingEnd \<Rightarrow> ([], Inr (None, balance, ws))
      | Buy \<Rightarrow> ([], Inr (None, put (PRINCIPLE cfg) op balance, ws))
      | Sell \<Rightarrow>
          (case balance_evaluate_sell cn op balance of
             (l, Inl e) \<Rightarrow> (l, Inl e)
           | (l, Inr (scs, balance')) \<Rightarrow> (l, Inr (Some scs, balance', ws)))
      | CoinLendInterest \<Rightarrow> ([], Inr (None, put (PRINCIPLE cfg) op balance, ws))
      | StakingInterest \<Rightarrow> ([], Inr (None, put (PRINCIPLE cfg) op balance, ws))
      | Airdrop \<Rightarrow> ([], Inr (None, put (PRINCIPLE cfg) op balance, ws))
      | Commission \<Rightarrow> ([], Inr (None, put (PRINCIPLE cfg) op balance, ws))
      | Deposit \<Rightarrow>
          ([(DEBUG, Msg_text ''DEPOSIT'')], Inr (None, put (PRINCIPLE cfg) op balance, ws))
      | Withdrawal \<Rightarrow>
          (case balance_evaluate_sell cn op balance of
             (l, Inl e) \<Rightarrow> (l, Inl e)
           | (l, Inr (scs, balance')) \<Rightarrow> (l, Inr (Some scs, balance', ws @ [(op, scs)])))
      | Other_Operation \<Rightarrow> ([], Inl NotImplementedError))"

text \<open>
  Lines 324--359: one pass of the \<^verbatim>\<open>while\<close> loop for the operation \<open>op\<close> taken
  from the iterator of \<open>current_platform\<close>. A missing dictionary key raises
  \<^verbatim>\<open>KeyError\<close>.
\<close>

definition replay_op ::
  "config \<Rightarrow> string \<Rightarrow> string \<Rightarrow> ('d::{zero,ord,plus,minus}) operation \<Rightarrow> 'd replay_state \<Rightarrow>
   ('d, 'd replay_state) res" where
  "replay_op cfg cn current_platform op st =
     (case map_of (platform_balance st) (platform op) of
        None \<Rightarrow> ([], Inl KeyError)
      | Some balance \<Rightarrow>
          (case balance_op cfg cn op balance (withdrawals st) of
             (l, Inl e) \<Rightarrow> (l, Inl e)
           | (l, Inr (sold_coins, balance', ws)) \<Rightarrow>
               (case map_of (platform_balanced_ops st) current_platform of
                  None \<Rightarrow> (l, Inl KeyError)
                | Some bops \<Rightarrow>
                    (l, Inr \<lparr> platform_balance =
                                AList.update (platform op) balance' (platform_balance st),
                              platform_balanced_ops =
                                AList.update current_platform (bops @ [(op, sold_coins)])
                                  (platform_balanced_ops st),
                              withdrawals = ws \<rparr>))))"

text \<open>
  Lines 316--359: the \<^verbatim>\<open>while\<close> loop. The argument is \<^verbatim>\<open>op_iterators\<close>, each iterator
  being the list of operations it still has to yield. \<^verbatim>\<open>current_platform\<close> is always
  the first key of \<^verbatim>\<open>op_iterators\<close> (it is set to that key at the start and after each
  \<^verbatim>\<open>pop\<close>, and only the current key is popped), and it is \<^verbatim>\<open>None\<close> when no iterator is
  left. The loop test \<^verbatim>\<open>while current_platform\<close> is also false for the empty string.
\<close>

function replay ::
  "config \<Rightarrow> string \<Rightarrow> (string \<times> ('d::{zero,ord,plus,minus}) operation list) list \<Rightarrow>
   'd replay_state \<Rightarrow> ('d, 'd replay_state) res" where
  "replay cfg cn [] st = ([], Inr st)"
| "replay cfg cn ((p, []) # its) st =
     (if p = [] then ([], Inr st) else replay cfg cn its st)"
| "replay cfg cn ((p, op # ops) # its) st =
     (if p = [] then ([], Inr st)
      else
        (case replay_op cfg cn p op st of
           (l, Inl e) \<Rightarrow> (l, Inl e)
         | (l, Inr st') \<Rightarrow>
             (case replay cfg cn ((p, ops) # its) st' of (l', r) \<Rightarrow> (l @ l', r))))"
  by pat_completeness auto
termination
  by (relation "measure (\<lambda>(cfg, cn, its, st). sum_list (map (\<lambda>(p, ops). Suc (length ops)) its))")
     auto

text \<open>
  Line 370: the generator over \<^verbatim>\<open>self.book.depositMatches\<close>; \<open>None\<close> when it yields
  nothing.
\<close>

definition deposit_match :: "'d Book \<Rightarrow> 'd operation \<Rightarrow> 'd DepositMatch option" where
  "deposit_match book op =
     find (\<lambda>m. dest_platform m = platform op \<and> dest_utc_time m = utc_time op
                 \<and> match_change m = change op) (depositMatches book)"

text \<open>
  Lines 369--371: \<^verbatim>\<open>findWithdrawnCoins\<close>. The first \<^verbatim>\<open>next\<close> has no default value and
  raises \<^verbatim>\<open>StopIteration\<close> on an exhausted generator; the second one has the default
  \<^verbatim>\<open>None\<close>.
\<close>

definition findWithdrawnCoins ::
  "'d Book \<Rightarrow> ('d operation \<times> 'd SoldCoin list) list \<Rightarrow> 'd operation \<Rightarrow>
   error + 'd SoldCoin list option" where
  "findWithdrawnCoins book ws op =
     (case deposit_match book op of
        None \<Rightarrow> Inl StopIteration
      | Some m \<Rightarrow>
          Inr (case find (\<lambda>(w, scs). platform w = source_platform m
                                      \<and> utc_time w = source_utc_time m
                                      \<and> change w = match_change m) ws of
                 None \<Rightarrow> None
               | Some (w, scs) \<Rightarrow> Some scs))"

text \<open>
  Line 381: \<^verbatim>\<open>bop[1] = ...\<close> on a tuple. The right-hand side is evaluated first; the
  item assignment then raises \<^verbatim>\<open>TypeError\<close>, whatever the value.
\<close>

definition tuple_setitem :: "'d balanced_op \<Rightarrow> 'd SoldCoin list option \<Rightarrow> error + 'd balanced_op" where
  "tuple_setitem bop v = Inl TypeError"

text \<open>
  Lines 376--383: the loop over the balanced operations of one platform. The two
  debug calls after the assignment are never reached.
\<close>

fun fill_ops ::
  "'d Book \<Rightarrow> ('d operation \<times> 'd SoldCoin list) list \<Rightarrow> 'd balanced_op list \<Rightarrow>
   ('d, 'd balanced_op list) res" where
  "fill_ops book ws [] = ([], Inr [])"
| "fill_ops book ws (bop # bops) =
     (if kind (fst bop) = Deposit then
        ([(DEBUG, Msg_type (kind (fst bop))), (DEBUG, Msg_text ''Found deposit''),
          (DEBUG, Msg_bop (fst bop) (snd bop))],
         (case findWithdrawnCoins book ws (fst bop) of
            Inl e \<Rightarrow> Inl e
          | Inr v \<Rightarrow> (case tuple_setitem bop v of Inl e \<Rightarrow> Inl e | Inr bop' \<Rightarrow> Inl TypeError)))
      else
        (case fill_ops book ws bops of
           (l, Inl e) \<Rightarrow> ((DEBUG, Msg_type (kind (fst bop))) # l, Inl e)
         | (l, Inr bops') \<Rightarrow> ((DEBUG, Msg_type (kind (fst bop))) # l, Inr (bop # bops'))))"

fun fill_platforms ::
  "'d Book \<Rightarrow> ('d operation \<times> 'd SoldCoin list) list \<Rightarrow> (string \<times> 'd balanced_op list) list \<Rightarrow>
   ('d, (string \<times> 'd balanced_op list) list) res" where
  "fill_platforms book ws [] = ([], Inr [])"
| "fill_platforms book ws ((p, bops) # rest) =
     (case fill_ops book ws bops of
        (l, Inl e) \<Rightarrow> ((DEBUG, Msg_text p) # l, Inl e)
      | (l, Inr bops') \<Rightarrow>
          (case fill_platforms book ws rest of
             (l', Inl e) \<Rightarrow> ((DEBUG, Msg_text p) # l @ l', Inl e)
           | (l', Inr rest') \<Rightarrow> ((DEBUG, Msg_text p) # l @ l', Inr ((p, bops') # rest'))))"

text \<open>Lines 362--367: the warnings for fees that were never settled.\<close>

definition fee_warnings ::
  "string \<Rightarrow> (string \<times> ('d::zero) BalanceQueue) list \<Rightarrow> 'd log_record list" where
  "fee_warnings cn pb =
     concat (map (\<lambda>(p, balance).
       if buffer_fee balance \<noteq> 0 then [(WARNING, Msg_outstanding_fees p (buffer_fee balance) cn)]
       else []) pb)"

text \<open>
  Lines 285--293: the queues, the result and the list of withdrawals before the loop.
\<close>

definition initial_state ::
  "(string \<times> 'd operation list) list \<Rightarrow> ('d::zero) replay_state" where
  "initial_state platform_ops =
     \<lparr> platform_balance = map (\<lambda>(p, os). (p, empty_queue)) platform_ops,
       platform_balanced_ops = map (\<lambda>(p, os). (p, [])) platform_ops,
       withdrawals = [] \<rparr>"

text \<open>
  \<^verbatim>\<open>Taxman._balance_coin\<close>. \<^verbatim>\<open>list(op_iterators.keys())[0]\<close> raises \<^verbatim>\<open>IndexError\<close> when
  there is no operation.
\<close>

definition balance_coin ::
  "config \<Rightarrow> ('d::{zero,ord,plus,minus}) Book \<Rightarrow> string \<Rightarrow> 'd operation list \<Rightarrow>
   ('d, (string \<times> 'd balanced_op list) list) res" where
  "balance_coin cfg book cn ops =
     (let platform_ops = group_by platform ops
      in if platform_ops = [] then ([], Inl IndexError)
         else
           bind_res (replay cfg cn platform_ops (initial_state platform_ops)) (\<lambda>st.
             bind_res (fee_warnings cn (platform_balance st)
                         @ [(DEBUG, Msg_text ''Filling in Deposits'')], Inr ())
               (\<lambda>u. fill_platforms book (withdrawals st) (platform_balanced_ops st))))"

section \<open>\<^verbatim>\<open>Taxman.evaluate_taxation\<close>\<close>

text \<open>
  Lines 392--402: the body of the loop over the coins. \<^verbatim>\<open>__init__\<close> binds
  \<^verbatim>\<open>self.__evaluate_taxation\<close> to \<^verbatim>\<open>_evaluate_taxation_GERMANY\<close>, the only such method
  of the class, and \<^verbatim>\<open>self.BalanceType\<close> to the queue of \<^verbatim>\<open>config.PRINCIPLE\<close>.
\<close>

definition evaluate_coin ::
  "config \<Rightarrow> ('d::{zero,ord,plus,minus,uminus,times,inverse}) PriceData \<Rightarrow> 'd Book \<Rightarrow> string \<Rightarrow>
   'd operation list \<Rightarrow> ('d, 'd TaxEvent list) res" where
  "evaluate_coin cfg pd book cn coin_operations =
     (if cn = ''EOS'' then
        bind_res (balance_coin cfg book cn (sort_operations coin_operations))
          (\<lambda>platform_balanced_ops.
             if MULTI_DEPOT cfg then
               evaluate_taxation_GERMANY cfg pd cn (Platform_dict platform_balanced_ops)
             else
               evaluate_taxation_GERMANY cfg pd cn
                 (Platform_dict [(''virtual'', concat (map snd platform_balanced_ops))]))
      else ([], Inr []))"

fun evaluate_coins ::
  "config \<Rightarrow> ('d::{zero,ord,plus,minus,uminus,times,inverse}) PriceData \<Rightarrow> 'd Book \<Rightarrow>
   (string \<times> 'd operation list) list \<Rightarrow> ('d, 'd TaxEvent list) res" where
  "evaluate_coins cfg pd book [] = ([], Inr [])"
| "evaluate_coins cfg pd book ((cn, coin_operations) # rest) =
     (case evaluate_coin cfg pd book cn coin_operations of
        (l, Inl e) \<Rightarrow> (l, Inl e)
      | (l, Inr evs) \<Rightarrow>
          (case evaluate_coins cfg pd book rest of
             (l', Inl e) \<Rightarrow> (l @ l', Inl e)
           | (l', Inr evs') \<Rightarrow> (l @ l', Inr (evs @ evs'))))"

definition evaluate_taxation ::
  "config \<Rightarrow> ('d::{zero,ord,plus,minus,uminus,times,inverse}) PriceData \<Rightarrow> 'd Book \<Rightarrow>
   ('d, 'd TaxEvent list) res" where
  "evaluate_taxation cfg pd book =
     bind_res ([(DEBUG, Msg_text ''Starting evaluation...'')], Inr ())
       (\<lambda>u. evaluate_coins cfg pd book (group_by coin (operations book)))"

section \<open>Example data\<close>

text \<open>A configuration, a pricing oracle and operations for concrete evaluations.\<close>

definition demo_config :: config where
  "demo_config =
     \<lparr> PRINCIPLE = FIFO, FIAT = ''EUR'', TAX_YEAR = 2021,
       IS_LONG_TERM = (\<lambda>buy sell. year buy + 1 < year sell
                          \<or> (year buy + 1 = year sell \<and> in_year buy < in_year sell)),
       CALCULATE_VIRTUAL_SELL = True, EXPORT_ALL_EVENTS = False, MULTI_DEPOT = True,
       is_fiat = (\<lambda>s. s = ''EUR'') \<rparr>"

definition demo_op :: "op_kind \<Rightarrow> int \<Rightarrow> int \<Rightarrow> string \<Rightarrow> rat \<Rightarrow> string \<Rightarrow> rat operation" where
  "demo_op k y d p c cn =
     \<lparr> kind = k, utc_time = \<lparr> year = y, in_year = d \<rparr>, platform = p, change = c,
       coin = cn, line = 1, file_path = ''statement.csv'' \<rparr>"

definition demo_prices :: "rat PriceData" where
  "demo_prices =
     \<lparr> get_cost = (\<lambda>a. case a of Cost_of_op op \<Rightarrow> Inr (change op * 15)
                               | Cost_of_sold sc \<Rightarrow> Inr (sold sc * 10)),
       get_price = (\<lambda>p c t. Inr 15) \<rparr>"

definition demo_detailed :: config where
  "demo_detailed = demo_config \<lparr> EXPORT_ALL_EVENTS := True \<rparr>"

definition demo_sell :: "rat operation" where
  "demo_sell = demo_op Sell 2021 20 ''kraken'' 6 ''EOS''"

definition demo_sold :: "rat SoldCoin list" where
  "demo_sold =
     [\<lparr> sc_op = demo_op Buy 2021 0 ''kraken'' 5 ''EOS'', sold = 5 \<rparr>,
      \<lparr> sc_op = demo_op Airdrop 2021 10 ''kraken'' 5 ''EOS'', sold = 1 \<rparr>]"

definition demo_fee :: "rat operation" where
  "demo_fee = demo_op Fee 2021 30 ''kraken'' 2 ''EOS''"

definition demo_withdrawal :: "rat operation" where
  "demo_withdrawal = demo_op Withdrawal 2021 40 ''kraken'' 2 ''EOS''"

definition demo_buy :: "rat operation" where
  "demo_buy = demo_op Buy 2021 0 ''kraken'' 5 ''EOS''"

definition demo_deposit :: "rat operation" where
  "demo_deposit = demo_op Deposit 2021 41 ''binance'' 2 ''EOS''"

definition demo_sell_binance :: "rat operation" where
  "demo_sell_binance = demo_op Sell 2021 50 ''binance'' 2 ''EOS''"

text \<open>
  A transfer: 5 EOS bought on one platform, 2 of them withdrawn, deposited on another
  platform a day later and sold there; the book records the match of the deposit.
\<close>

definition demo_transfer :: "rat operation list" where
  "demo_transfer = [demo_buy, demo_withdrawal, demo_deposit, demo_sell_binance]"

definition demo_book :: "rat Book" where
  "demo_book =
     \<lparr> operations = demo_transfer,
       depositMatches =
         [\<lparr> source_platform = ''kraken'', source_utc_time = \<lparr> year = 2021, in_year = 40 \<rparr>,
            dest_platform = ''binance'', dest_utc_time = \<lparr> year = 2021, in_year = 41 \<rparr>,
            match_change = 2 \<rparr>] \<rparr>"

text \<open>A book with one deposit and no recorded match.\<close>

definition demo_book_unmatched :: "rat Book" where
  "demo_book_unmatched = \<lparr> operations = [demo_deposit], depositMatches = [] \<rparr>"

text \<open>A book whose only operation buys another asset.\<close>

definition demo_btc_buy :: "rat operation" where
  "demo_btc_buy = demo_op Buy 2021 5 ''kraken'' 1 ''BTC''"

definition demo_btc_book :: "rat Book" where
  "demo_btc_book = \<lparr> operations = [demo_btc_buy], depositMatches = [] \<rparr>"

text \<open>The state of a replay after the purchase of 5 EOS.\<close>

definition demo_state :: "rat replay_state" where
  "demo_state =
     \<lparr> platform_balance =
         [(''kraken'', \<lparr> queue = [\<lparr> origin = demo_buy, remaining = 5 \<rparr>], buffer_fee = 0 \<rparr>)],
       platform_balanced_ops = [(''kraken'', [(demo_buy, None)])],
       withdrawals = [] \<rparr>"

text \<open>A book whose only operation buys 5 EOS.\<close>

definition demo_eos_book :: "rat Book" where
  "demo_eos_book = \<lparr> operations = [demo_buy], depositMatches = [] \<rparr>"

section \<open>Properties of the classification\<close>

lemmas demo_defs = demo_config_def demo_detailed_def demo_op_def demo_prices_def demo_sell_def
  demo_sold_def demo_fee_def demo_withdrawal_def demo_buy_def demo_deposit_def
  demo_sell_binance_def demo_transfer_def demo_book_def demo_book_unmatched_def
  demo_btc_buy_def demo_btc_book_def demo_state_def demo_eos_book_def

lemmas eval_defs = evaluate_op_def evaluate_sell_def sell_step_def sell_gains_def dec_div_def
  sc_is_taxable_def portion_remark_def mk_TaxEvent_def outside_tax_year_def in_tax_year_def

lemma sell_gains_ok:
  assumes "get_cost pd (Cost_of_sold sc) = Inr c" and "change op \<noteq> 0"
  shows "sell_gains cfg pd op sv st sc =
           Inr (if sc_is_taxable cfg op sc
                then acc_taxed_gain st + (sold sc / change op * sv - c) else acc_taxed_gain st,
                if CALCULATE_VIRTUAL_SELL cfg
                then acc_real_gain st + (sold sc / change op * sv - c) else acc_real_gain st)"
  using assms by (simp add: sell_gains_def dec_div_def Let_def)

lemma sell_loop_ok:
  assumes "\<forall>sc\<in>set scs. get_cost pd (Cost_of_sold sc) = Inr (cost sc)" and "change op \<noteq> 0"
  shows "sell_loop cfg pd op sv st scs =
     Inr \<lparr> acc_taxed_gain =
             foldl (+) (acc_taxed_gain st)
               (map (\<lambda>sc. sold sc / change op * sv - cost sc) (filter (sc_is_taxable cfg op) scs)),
           acc_real_gain =
             (if CALCULATE_VIRTUAL_SELL cfg
              then foldl (+) (acc_real_gain st) (map (\<lambda>sc. sold sc / change op * sv - cost sc) scs)
              else acc_real_gain st),
           any_sc_is_taxable = (any_sc_is_taxable st \<or> (\<exists>sc\<in>set scs. sc_is_taxable cfg op sc)),
           tx_list =
             (if EXPORT_ALL_EVENTS cfg then
                tx_list st @
                map (\<lambda>k.
                  \<lparr> taxation_type = Sonstige_Einkuenfte,
                    taxed_gain =
                      foldl (+) (acc_taxed_gain st)
                        (map (\<lambda>sc. sold sc / change op * sv - cost sc)
                           (filter (sc_is_taxable cfg op) (take (Suc k) scs))),
                    tx_op = op,
                    is_taxable = sc_is_taxable cfg op (scs ! k),
                    sell_value = sv,
                    real_gain =
                      (if CALCULATE_VIRTUAL_SELL cfg
                       then foldl (+) (acc_real_gain st)
                              (map (\<lambda>sc. sold sc / change op * sv - cost sc) (take (Suc k) scs))
                       else acc_real_gain st),
                    remark = Portion_remark [portion_remark (scs ! k)] \<rparr>) [0..<length scs]
              else tx_list st) \<rparr>"
  using assms
proof (induction scs arbitrary: st)
  case Nil
  then show ?case by simp
next
  case (Cons sc scs)
  have g: "get_cost pd (Cost_of_sold sc) = Inr (cost sc)" using Cons.prems by simp
  have rest: "\<forall>sc\<in>set scs. get_cost pd (Cost_of_sold sc) = Inr (cost sc)" using Cons.prems by simp
  show ?case
    by (simp add: sell_step_def sell_gains_ok[OF g Cons.prems(2)] Cons.IH[OF rest Cons.prems(2)]
          map_upt_Suc del: upt_Suc)
qed

lemma sell_loop_flags:
  assumes "sell_loop cfg pd op sv st scs = Inr st'"
  shows "any_sc_is_taxable st' = (any_sc_is_taxable st \<or> (\<exists>sc\<in>set scs. sc_is_taxable cfg op sc))
       \<and> (if EXPORT_ALL_EVENTS cfg
          then map is_taxable (tx_list st')
                 = map is_taxable (tx_list st) @ map (sc_is_taxable cfg op) scs
          else tx_list st' = tx_list st)"
  using assms
proof (induction scs arbitrary: st)
  case Nil
  then show ?case by simp
next
  case (Cons sc scs)
  from Cons.prems obtain st1 where
    s1: "sell_step cfg pd op sv st sc = Inr st1" and s2: "sell_loop cfg pd op sv st1 scs = Inr st'"
    by (auto split: sum.splits)
  from s1 have a: "any_sc_is_taxable st1 = (any_sc_is_taxable st \<or> sc_is_taxable cfg op sc)"
    and t: "tx_list st1 = (if EXPORT_ALL_EVENTS cfg
              then tx_list st @ [\<lparr> taxation_type = Sonstige_Einkuenfte,
                     taxed_gain = acc_taxed_gain st1, tx_op = op,
                     is_taxable = sc_is_taxable cfg op sc, sell_value = sv,
                     real_gain = acc_real_gain st1,
                     remark = Portion_remark [portion_remark sc] \<rparr>]
              else tx_list st)"
    by (auto simp: sell_step_def split: sum.splits prod.splits)
  from Cons.IH[OF s2] a t show ?case by auto
qed

text \<open>
  The flags of the events of a sell, whenever the classification returns events.
\<close>

lemma evaluate_op_sell_flags:
  assumes "kind op = Sell" and "coin op \<noteq> FIAT cfg"
    and "evaluate_op cfg pd cn op (Some scs) = (l, Inr evs)"
  shows "if EXPORT_ALL_EVENTS cfg then
           map is_taxable evs =
             map (\<lambda>sc. \<not> IS_LONG_TERM cfg (utc_time (sc_op sc)) (utc_time op)
                        \<and> (kind (sc_op sc) \<notin> {Airdrop, CoinLendInterest, StakingInterest, Commission}
                           \<or> coin (sc_op sc) = FIAT cfg)) scs
         else
           (\<exists>ev. evs = [ev] \<and>
              is_taxable ev =
                (\<exists>sc\<in>set scs. \<not> IS_LONG_TERM cfg (utc_time (sc_op sc)) (utc_time op)
                        \<and> (kind (sc_op sc) \<notin> {Airdrop, CoinLendInterest, StakingInterest, Commission}
                           \<or> coin (sc_op sc) = FIAT cfg)))"
proof -
  have c: "sc_is_taxable cfg op =
      (\<lambda>sc. \<not> IS_LONG_TERM cfg (utc_time (sc_op sc)) (utc_time op)
                        \<and> (kind (sc_op sc) \<notin> {Airdrop, CoinLendInterest, StakingInterest, Commission}
                           \<or> coin (sc_op sc) = FIAT cfg))"
    by (auto simp: sc_is_taxable_def fun_eq_iff)
  from assms have es: "evaluate_sell cfg pd op (Some scs) = Inr evs"
    by (simp add: evaluate_op_def)
  then obtain sv st where
    sl: "sell_loop cfg pd op sv \<lparr> acc_taxed_gain = 0, acc_real_gain = 0,
            any_sc_is_taxable = False, tx_list = [] \<rparr> scs = Inr st"
    and ev: "evs = (if \<not> EXPORT_ALL_EVENTS cfg then
                       tx_list st @
                         [\<lparr> taxation_type = Sonstige_Einkuenfte,
                            taxed_gain = acc_taxed_gain st, tx_op = op,
                            is_taxable = any_sc_is_taxable st, sell_value = sv,
                            real_gain = acc_real_gain st,
                            remark = Portion_remark (map portion_remark scs) \<rparr>]
                     else tx_list st)"
    by (auto simp: evaluate_sell_def split: sum.splits if_splits)
  from sell_loop_flags[OF sl] ev show ?thesis
    unfolding c[symmetric] by (auto split: if_splits)
qed

text \<open>
  Claim C5. For a Sell of an asset other than the reporting fiat, when the oracle values
  the sell and its portions, the classification returns events, and a sold portion is
  classified taxable exactly when \<^verbatim>\<open>IS_LONG_TERM\<close> does not hold between the time of its
  origin and the time of the sell, and its origin is not an Airdrop, CoinLendInterest,
  StakingInterest or Commission in an asset other than the fiat. With the detailed
  export there is one event per portion and the events carry these flags portion by
  portion; otherwise there is one event, taxable exactly when some portion is.
\<close>

theorem portion_taxable_iff:
  assumes "kind op = Sell" and "coin op \<noteq> FIAT cfg"
    and "get_cost pd (Cost_of_op op) = Inr sv"
    and "\<forall>sc\<in>set scs. get_cost pd (Cost_of_sold sc) = Inr (cost sc)"
    and "change op \<noteq> 0"
  shows "\<exists>evs. evaluate_op cfg pd cn op (Some scs) = ([], Inr evs)
          \<and> (if EXPORT_ALL_EVENTS cfg then
                map is_taxable evs =
                  map (\<lambda>sc. \<not> IS_LONG_TERM cfg (utc_time (sc_op sc)) (utc_time op)
                             \<and> (kind (sc_op sc)
                                   \<notin> {Airdrop, CoinLendInterest, StakingInterest, Commission}
                                \<or> coin (sc_op sc) = FIAT cfg)) scs
              else
                (\<exists>ev. evs = [ev] \<and>
                   is_taxable ev =
                     (\<exists>sc\<in>set scs. \<not> IS_LONG_TERM cfg (utc_time (sc_op sc)) (utc_time op)
                             \<and> (kind (sc_op sc)
                                   \<notin> {Airdrop, CoinLendInterest, StakingInterest, Commission}
                                \<or> coin (sc_op sc) = FIAT cfg))))"
proof -
  have "\<exists>evs. evaluate_op cfg pd cn op (Some scs) = ([], Inr evs)"
    using assms(1,2,3)
    by (simp add: evaluate_op_def evaluate_sell_def sell_loop_ok[OF assms(4,5)])
  then obtain evs where e: "evaluate_op cfg pd cn op (Some scs) = ([], Inr evs)" ..
  from evaluate_op_sell_flags[OF assms(1,2) e] e show ?thesis by blast
qed

lemma demo_detailed_run:
  "evaluate_op demo_detailed demo_prices ''EOS'' demo_sell (Some demo_sold) =
     ([], Inr
       [\<lparr> taxation_type = Sonstige_Einkuenfte, taxed_gain = 25, tx_op = demo_sell,
          is_taxable = True, sell_value = 90, real_gain = 25,
          remark = Portion_remark [(5, \<lparr> year = 2021, in_year = 0 \<rparr>, Buy)] \<rparr>,
        \<lparr> taxation_type = Sonstige_Einkuenfte, taxed_gain = 25, tx_op = demo_sell,
          is_taxable = False, sell_value = 90, real_gain = 30,
          remark = Portion_remark [(1, \<lparr> year = 2021, in_year = 10 \<rparr>, Airdrop)] \<rparr>])"
  by (simp add: demo_defs eval_defs)

lemma demo_summary_run:
  "evaluate_op demo_config demo_prices ''EOS'' demo_sell (Some demo_sold) =
     ([], Inr
       [\<lparr> taxation_type = Sonstige_Einkuenfte, taxed_gain = 25, tx_op = demo_sell,
          is_taxable = True, sell_value = 90, real_gain = 30,
          remark = Portion_remark [(5, \<lparr> year = 2021, in_year = 0 \<rparr>, Buy),
                                   (1, \<lparr> year = 2021, in_year = 10 \<rparr>, Airdrop)] \<rparr>])"
  by (simp add: demo_defs eval_defs)

text \<open>Claim C5 on a sell of 6 EOS out of a bought lot and an airdropped lot.\<close>

theorem portion_taxable_iff_witness:
  "kind demo_sell = Sell \<and> coin demo_sell \<noteq> FIAT demo_detailed
   \<and> get_cost demo_prices (Cost_of_op demo_sell) = Inr 90
   \<and> change demo_sell \<noteq> 0
   \<and> evaluate_op demo_detailed demo_prices ''EOS'' demo_sell (Some demo_sold) =
       ([], Inr
         [\<lparr> taxation_type = Sonstige_Einkuenfte, taxed_gain = 25, tx_op = demo_sell,
            is_taxable = True, sell_value = 90, real_gain = 25,
            remark = Portion_remark [(5, \<lparr> year = 2021, in_year = 0 \<rparr>, Buy)] \<rparr>,
          \<lparr> taxation_type = Sonstige_Einkuenfte, taxed_gain = 25, tx_op = demo_sell,
            is_taxable = False, sell_value = 90, real_gain = 30,
            remark = Portion_remark [(1, \<lparr> year = 2021, in_year = 10 \<rparr>, Airdrop)] \<rparr>])
   \<and> map (\<lambda>sc. \<not> IS_LONG_TERM demo_detailed (utc_time (sc_op sc)) (utc_time demo_sell)
               \<and> (kind (sc_op sc) \<notin> {Airdrop, CoinLendInterest, StakingInterest, Commission}
                  \<or> coin (sc_op sc) = FIAT demo_detailed)) demo_sold
       = [True, False]"
proof -
  have h1: "kind demo_sell = Sell" by (simp add: demo_defs)
  have h2: "coin demo_sell \<noteq> FIAT demo_detailed" by (simp add: demo_defs)
  have h3: "get_cost demo_prices (Cost_of_op demo_sell) = Inr 90" by (simp add: demo_defs)
  have h4: "\<forall>sc\<in>set demo_sold. get_cost demo_prices (Cost_of_sold sc) = Inr (sold sc * 10)"
    by (simp add: demo_defs)
  have h5: "change demo_sell \<noteq> 0" by (simp add: demo_defs)
  have x: "EXPORT_ALL_EVENTS demo_detailed" by (simp add: demo_defs)
  from portion_taxable_iff[OF h1 h2 h3 h4 h5, of "''EOS''"] x
  obtain evs where
    e: "evaluate_op demo_detailed demo_prices ''EOS'' demo_sell (Some demo_sold) = ([], Inr evs)"
    and f: "map is_taxable evs =
              map (\<lambda>sc. \<not> IS_LONG_TERM demo_detailed (utc_time (sc_op sc)) (utc_time demo_sell)
                         \<and> (kind (sc_op sc)
                               \<notin> {Airdrop, CoinLendInterest, StakingInterest, Commission}
                            \<or> coin (sc_op sc) = FIAT demo_detailed)) demo_sold"
    by (auto simp only: if_True)
  from e have evs: "evs =
         [\<lparr> taxation_type = Sonstige_Einkuenfte, taxed_gain = 25, tx_op = demo_sell,
            is_taxable = True, sell_value = 90, real_gain = 25,
            remark = Portion_remark [(5, \<lparr> year = 2021, in_year = 0 \<rparr>, Buy)] \<rparr>,
          \<lparr> taxation_type = Sonstige_Einkuenfte, taxed_gain = 25, tx_op = demo_sell,
            is_taxable = False, sell_value = 90, real_gain = 30,
            remark = Portion_remark [(1, \<lparr> year = 2021, in_year = 10 \<rparr>, Airdrop)] \<rparr>]"
    by (simp only: demo_detailed_run prod.inject sum.inject)
  have g: "map (\<lambda>sc. \<not> IS_LONG_TERM demo_detailed (utc_time (sc_op sc)) (utc_time demo_sell)
                      \<and> (kind (sc_op sc)
                            \<notin> {Airdrop, CoinLendInterest, StakingInterest, Commission}
                         \<or> coin (sc_op sc) = FIAT demo_detailed)) demo_sold
           = [True, False]"
    unfolding f[symmetric] evs by simp
  show ?thesis
    using h1 h2 h3 h5 g demo_detailed_run by blast
qed

text \<open>
  Claim C6. When the oracle prices the sell and every portion, the gain of a portion is
  \<open>sold / change * sell_value - cost\<close>; the last (in the summary export: the only)
  event of the sell has as taxed gain the sum of the gains of the taxable portions, and
  as real gain the sum of the gains of all portions if virtual-sell accounting is on
  and zero otherwise. The sums are accumulated from zero, from left to right.
\<close>

theorem sell_gain_sums:
  assumes "kind op = Sell" and "coin op \<noteq> FIAT cfg"
    and "get_cost pd (Cost_of_op op) = Inr sv"
    and "\<forall>sc\<in>set scs. get_cost pd (Cost_of_sold sc) = Inr (cost sc)"
    and "change op \<noteq> 0"
  shows "\<exists>evs. evaluate_op cfg pd cn op (Some scs) = ([], Inr evs)
          \<and> length evs = (if EXPORT_ALL_EVENTS cfg then length scs else 1)
          \<and> (evs \<noteq> [] \<longrightarrow>
               taxed_gain (last evs) =
                 foldl (+) 0 (map (\<lambda>sc. sold sc / change op * sv - cost sc)
                                (filter (sc_is_taxable cfg op) scs))
               \<and> real_gain (last evs) =
                   (if CALCULATE_VIRTUAL_SELL cfg
                    then foldl (+) 0 (map (\<lambda>sc. sold sc / change op * sv - cost sc) scs)
                    else 0)
               \<and> sell_value (last evs) = sv \<and> tx_op (last evs) = op)"
proof (cases "EXPORT_ALL_EVENTS cfg")
  case False
  then show ?thesis
    using assms
    by (simp add: evaluate_op_def evaluate_sell_def sell_loop_ok[OF assms(4,5)])
next
  case True
  show ?thesis
  proof (cases "scs = []")
    case Nil: True
    with \<open>EXPORT_ALL_EVENTS cfg\<close> show ?thesis
      using assms by (simp add: evaluate_op_def evaluate_sell_def)
  next
    case False
    then have n: "[0..<length scs] \<noteq> []" by simp
    have l: "last [0..<length scs] = length scs - 1" using False by (cases scs rule: rev_cases) simp_all
    have t: "take (Suc (length scs - 1)) scs = scs" using False by simp
    show ?thesis
      using assms True False n
      by (simp add: evaluate_op_def evaluate_sell_def sell_loop_ok[OF assms(4,5)]
            last_map l t del: upt_Suc)
  qed
qed

text \<open>Claim C6 on the same sell: taxed gain 25, real gain 30.\<close>

theorem sell_gain_sums_witness:
  "kind demo_sell = Sell \<and> coin demo_sell \<noteq> FIAT demo_config
   \<and> get_cost demo_prices (Cost_of_op demo_sell) = Inr 90
   \<and> change demo_sell \<noteq> 0
   \<and> evaluate_op demo_config demo_prices ''EOS'' demo_sell (Some demo_sold) =
       ([], Inr
         [\<lparr> taxation_type = Sonstige_Einkuenfte, taxed_gain = 25, tx_op = demo_sell,
            is_taxable = True, sell_value = 90, real_gain = 30,
            remark = Portion_remark [(5, \<lparr> year = 2021, in_year = 0 \<rparr>, Buy),
                                     (1, \<lparr> year = 2021, in_year = 10 \<rparr>, Airdrop)] \<rparr>])
   \<and> foldl (+) 0 (map (\<lambda>sc. sold sc / change demo_sell * 90 - sold sc * 10)
                    (filter (sc_is_taxable demo_config demo_sell) demo_sold)) = 25
   \<and> foldl (+) 0 (map (\<lambda>sc. sold sc / change demo_sell * 90 - sold sc * 10) demo_sold) = 30"
proof -
  have h1: "kind demo_sell = Sell" by (simp add: demo_defs)
  have h2: "coin demo_sell \<noteq> FIAT demo_config" by (simp add: demo_defs)
  have h3: "get_cost demo_prices (Cost_of_op demo_sell) = Inr 90" by (simp add: demo_defs)
  have h4: "\<forall>sc\<in>set demo_sold. get_cost demo_prices (Cost_of_sold sc) = Inr (sold sc * 10)"
    by (simp add: demo_defs)
  have h5: "change demo_sell \<noteq> 0" by (simp add: demo_defs)
  have c: "CALCULATE_VIRTUAL_SELL demo_config" by (simp add: demo_defs)
  from sell_gain_sums[OF h1 h2 h3 h4 h5, of "''EOS''"]
  obtain evs where
    e: "evaluate_op demo_config demo_prices ''EOS'' demo_sell (Some demo_sold) = ([], Inr evs)"
    and t: "evs \<noteq> [] \<longrightarrow> taxed_gain (last evs) =
                 foldl (+) 0 (map (\<lambda>sc. sold sc / change demo_sell * 90 - sold sc * 10)
                                (filter (sc_is_taxable demo_config demo_sell) demo_sold))
               \<and> real_gain (last evs) =
                   (if CALCULATE_VIRTUAL_SELL demo_config
                    then foldl (+) 0 (map (\<lambda>sc. sold sc / change demo_sell * 90 - sold sc * 10) demo_sold)
                    else 0)"
    by blast
  from e have evs: "evs =
         [\<lparr> taxation_type = Sonstige_Einkuenfte, taxed_gain = 25, tx_op = demo_sell,
            is_taxable = True, sell_value = 90, real_gain = 30,
            remark = Portion_remark [(5, \<lparr> year = 2021, in_year = 0 \<rparr>, Buy),
                                     (1, \<lparr> year = 2021, in_year = 10 \<rparr>, Airdrop)] \<rparr>]"
    by (simp only: demo_summary_run prod.inject sum.inject)
  have g: "foldl (+) 0 (map (\<lambda>sc. sold sc / change demo_sell * 90 - sold sc * 10)
                    (filter (sc_is_taxable demo_config demo_sell) demo_sold)) = 25
         \<and> foldl (+) 0 (map (\<lambda>sc. sold sc / change demo_sell * 90 - sold sc * 10) demo_sold) = 30"
    using t c unfolding evs by simp
  show ?thesis
    using h1 h2 h3 h5 g demo_summary_run by blast
qed

text \<open>
  Claim C10. With the detailed export, a sell yields one event per portion; the event
  of index \<open>k\<close> carries the totals accumulated over the portions up to and including
  that one, and every event repeats the sell value of the whole operation.
\<close>

theorem detailed_running_totals:
  assumes "kind op = Sell" and "coin op \<noteq> FIAT cfg" and "EXPORT_ALL_EVENTS cfg"
    and "get_cost pd (Cost_of_op op) = Inr sv"
    and "\<forall>sc\<in>set scs. get_cost pd (Cost_of_sold sc) = Inr (cost sc)"
    and "change op \<noteq> 0"
  shows "\<exists>evs. evaluate_op cfg pd cn op (Some scs) = ([], Inr evs)
          \<and> length evs = length scs
          \<and> (\<forall>k<length scs.
               taxed_gain (evs ! k) =
                 foldl (+) 0 (map (\<lambda>sc. sold sc / change op * sv - cost sc)
                                (filter (sc_is_taxable cfg op) (take (Suc k) scs)))
               \<and> real_gain (evs ! k) =
                   (if CALCULATE_VIRTUAL_SELL cfg
                    then foldl (+) 0 (map (\<lambda>sc. sold sc / change op * sv - cost sc)
                                        (take (Suc k) scs))
                    else 0)
               \<and> sell_value (evs ! k) = sv
               \<and> tx_op (evs ! k) = op
               \<and> is_taxable (evs ! k) = sc_is_taxable cfg op (scs ! k))"
  using assms
  by (simp add: evaluate_op_def evaluate_sell_def sell_loop_ok[OF assms(5,6)] del: upt_Suc)

text \<open>Claim C10 on the same sell: the real gains of the two events are 25 and 30.\<close>

theorem detailed_running_totals_witness:
  "kind demo_sell = Sell \<and> coin demo_sell \<noteq> FIAT demo_detailed \<and> EXPORT_ALL_EVENTS demo_detailed
   \<and> get_cost demo_prices (Cost_of_op demo_sell) = Inr 90
   \<and> change demo_sell \<noteq> 0
   \<and> evaluate_op demo_detailed demo_prices ''EOS'' demo_sell (Some demo_sold) =
     ([], Inr
       [\<lparr> taxation_type = Sonstige_Einkuenfte, taxed_gain = 25, tx_op = demo_sell,
          is_taxable = True, sell_value = 90, real_gain = 25,
          remark = Portion_remark [(5, \<lparr> year = 2021, in_year = 0 \<rparr>, Buy)] \<rparr>,
        \<lparr> taxation_type = Sonstige_Einkuenfte, taxed_gain = 25, tx_op = demo_sell,
          is_taxable = False, sell_value = 90, real_gain = 30,
          remark = Portion_remark [(1, \<lparr> year = 2021, in_year = 10 \<rparr>, Airdrop)] \<rparr>])
   \<and> foldl (+) 0 (map (\<lambda>sc. sold sc / change demo_sell * 90 - sold sc * 10)
                    (take (Suc 0) demo_sold)) = 25
   \<and> foldl (+) 0 (map (\<lambda>sc. sold sc / change demo_sell * 90 - sold sc * 10)
                    (take (Suc 1) demo_sold)) = 30"
proof -
  have h1: "kind demo_sell = Sell" by (simp add: demo_defs)
  have h2: "coin demo_sell \<noteq> FIAT demo_detailed" by (simp add: demo_defs)
  have h3: "EXPORT_ALL_EVENTS demo_detailed" by (simp add: demo_defs)
  have h4: "get_cost demo_prices (Cost_of_op demo_sell) = Inr 90" by (simp add: demo_defs)
  have h5: "\<forall>sc\<in>set demo_sold. get_cost demo_prices (Cost_of_sold sc) = Inr (sold sc * 10)"
    by (simp add: demo_defs)
  have h6: "change demo_sell \<noteq> 0" by (simp add: demo_defs)
  from detailed_running_totals[OF h1 h2 h3 h4 h5 h6, of "''EOS''"]
  obtain evs where
    e: "evaluate_op demo_detailed demo_prices ''EOS'' demo_sell (Some demo_sold) = ([], Inr evs)"
    and t: "\<forall>k<length demo_sold.
               real_gain (evs ! k) =
                   (if CALCULATE_VIRTUAL_SELL demo_detailed
                    then foldl (+) 0 (map (\<lambda>sc. sold sc / change demo_sell * 90 - sold sc * 10)
                                        (take (Suc k) demo_sold))
                    else 0)"
    by blast
  have c: "CALCULATE_VIRTUAL_SELL demo_detailed" by (simp add: demo_defs)
  have l: "0 < length demo_sold" "1 < length demo_sold" by (simp_all add: demo_defs)
  from e have evs: "evs =
       [\<lparr> taxation_type = Sonstige_Einkuenfte, taxed_gain = 25, tx_op = demo_sell,
          is_taxable = True, sell_value = 90, real_gain = 25,
          remark = Portion_remark [(5, \<lparr> year = 2021, in_year = 0 \<rparr>, Buy)] \<rparr>,
        \<lparr> taxation_type = Sonstige_Einkuenfte, taxed_gain = 25, tx_op = demo_sell,
          is_taxable = False, sell_value = 90, real_gain = 30,
          remark = Portion_remark [(1, \<lparr> year = 2021, in_year = 10 \<rparr>, Airdrop)] \<rparr>]"
    by (simp only: demo_detailed_run prod.inject sum.inject)
  have g0: "foldl (+) 0 (map (\<lambda>sc. sold sc / change demo_sell * 90 - sold sc * 10)
                    (take (Suc 0) demo_sold)) = 25"
    using t[rule_format, OF l(1)] c unfolding evs by simp
  have g1: "foldl (+) 0 (map (\<lambda>sc. sold sc / change demo_sell * 90 - sold sc * 10)
                    (take (Suc 1) demo_sold)) = 30"
    using t[rule_format, OF l(2)] c unfolding evs by simp
  show ?thesis
    using h1 h2 h3 h4 h6 g0 g1 demo_detailed_run by blast
qed

text \<open>
  Claim C7. A Fee whose valuation the oracle gives yields one event; its taxed gain is
  the negated valuation, whatever the sold coins, and it is taxable exactly when the
  year of the fee is the tax year.
\<close>

theorem fee_event:
  assumes "kind op = Fee" and "get_cost pd (Cost_of_op op) = Inr c"
  shows "\<exists>ev. evaluate_op cfg pd cn op sold_coins = ([], Inr [ev])
          \<and> taxed_gain ev = - c
          \<and> is_taxable ev = (year (utc_time op) = TAX_YEAR cfg)
          \<and> tx_op ev = op"
  using assms by (simp add: evaluate_op_def mk_TaxEvent_def in_tax_year_def)

text \<open>Claim C7 on a fee of 2 EOS valued at 30.\<close>

theorem fee_event_witness:
  "kind demo_fee = Fee \<and> get_cost demo_prices (Cost_of_op demo_fee) = Inr 30
   \<and> evaluate_op demo_config demo_prices ''EOS'' demo_fee (Some demo_sold) =
       ([], Inr [\<lparr> taxation_type = Sonstige_Einkuenfte, taxed_gain = - 30, tx_op = demo_fee,
                   is_taxable = True, sell_value = 0, real_gain = 0, remark = No_remark \<rparr>])"
proof -
  have h1: "kind demo_fee = Fee" by (simp add: demo_defs)
  have h2: "get_cost demo_prices (Cost_of_op demo_fee) = Inr 30" by (simp add: demo_defs)
  from fee_event[OF h1 h2, of demo_config "''EOS''" "Some demo_sold"]
  obtain ev where "evaluate_op demo_config demo_prices ''EOS'' demo_fee (Some demo_sold) = ([], Inr [ev])"
    and "taxed_gain ev = - 30" by blast
  with h1 h2 show ?thesis
    by (simp add: demo_defs eval_defs)
qed

text \<open>
  Claim C8. A Withdrawal of an asset other than the fiat is not fatal: the
  classification emits the warning of an unresolved withdrawal and still yields an
  event with taxed gain zero that is not taxable.
\<close>

theorem unresolved_withdrawal:
  assumes "kind op = Withdrawal" and "cn \<noteq> FIAT cfg"
  shows "evaluate_op cfg pd cn op sold_coins =
           ([(WARNING, Msg_unresolved_withdrawal (change op) cn (platform op) (utc_time op))],
            Inr [\<lparr> taxation_type = Auszahlung, taxed_gain = 0, tx_op = op, is_taxable = False,
                   sell_value = 0, real_gain = 0, remark = No_remark \<rparr>])"
  using assms by (simp add: evaluate_op_def mk_TaxEvent_def)

text \<open>Claim C8 on a withdrawal of 2 EOS.\<close>

theorem unresolved_withdrawal_witness:
  "kind demo_withdrawal = Withdrawal \<and> ''EOS'' \<noteq> FIAT demo_config
   \<and> evaluate_op demo_config demo_prices ''EOS'' demo_withdrawal (Some demo_sold) =
       ([(WARNING, Msg_unresolved_withdrawal 2 ''EOS'' ''kraken'' \<lparr> year = 2021, in_year = 40 \<rparr>)],
        Inr [\<lparr> taxation_type = Auszahlung, taxed_gain = 0, tx_op = demo_withdrawal,
               is_taxable = False, sell_value = 0, real_gain = 0, remark = No_remark \<rparr>])"
proof -
  have h1: "kind demo_withdrawal = Withdrawal" by (simp add: demo_defs)
  have h2: "''EOS'' \<noteq> FIAT demo_config" by (simp add: demo_defs)
  show ?thesis
    using h1 h2 unresolved_withdrawal[OF h1 h2, of demo_prices "Some demo_sold"]
    by (simp add: demo_defs)
qed

section \<open>Properties of the replay\<close>

lemma snd_bind_res:
  "snd (bind_res r f) = (case snd r of Inl e \<Rightarrow> Inl e | Inr x \<Rightarrow> snd (f x))"
  by (cases r) (auto simp: bind_res_def split: sum.splits prod.splits)

subsection \<open>consume\<close>

lemma sum_remaining_nonneg:
  fixes q :: "('d::linordered_ab_group_add) Lot list"
  assumes "\<forall>l\<in>set q. 0 < remaining l"
  shows "0 \<le> sum_list (map remaining q)"
  using assms by (induction q) (auto intro: add_nonneg_nonneg less_imp_le)

lemma consume_short:
  fixes q :: "('d::linordered_ab_group_add) Lot list"
  assumes "\<forall>l\<in>set q. 0 < remaining l" and "0 < a" and "sum_list (map remaining q) < a"
  shows "consume a q =
           (map (\<lambda>l. \<lparr> sc_op = origin l, sold = remaining l \<rparr>) q,
            a - sum_list (map remaining q), [])"
  using assms
proof (induction q arbitrary: a)
  case Nil
  then show ?case by simp
next
  case (Cons l q)
  have pos: "0 < remaining l" and rest: "\<forall>l\<in>set q. 0 < remaining l"
    using Cons.prems(1) by simp_all
  have nn: "0 \<le> sum_list (map remaining q)" by (rule sum_remaining_nonneg[OF rest])
  have s: "remaining l + sum_list (map remaining q) < a" using Cons.prems(3) by simp
  from s nn have ge: "remaining l < a"
    by (metis add_le_cancel_left add.right_neutral le_less_trans)
  from s have s': "sum_list (map remaining q) < a - remaining l"
    by (simp add: less_diff_eq add.commute)
  from nn s' have p': "0 < a - remaining l" by (rule le_less_trans)
  have d: "a - remaining l - sum_list (map remaining q)
             = a - (remaining l + sum_list (map remaining q))"
    by (simp add: diff_diff_eq)
  from Cons.prems(2) ge show ?case
    by (simp add: Cons.IH[OF rest p' s'] d not_le not_less less_imp_le)
qed

lemma consume_covered:
  fixes q :: "('d::linordered_ab_group_add) Lot list"
  assumes "\<forall>l\<in>set q. 0 < remaining l" and "0 \<le> a" and "a \<le> sum_list (map remaining q)"
  shows "fst (snd (consume a q)) = 0"
  using assms
proof (induction q arbitrary: a)
  case Nil
  then show ?case by simp
next
  case (Cons l q)
  have rest: "\<forall>l\<in>set q. 0 < remaining l" using Cons.prems(1) by simp
  show ?case
  proof (cases "a \<le> 0")
    case True
    with Cons.prems(2) have "a = 0" by simp
    then show ?thesis by simp
  next
    case False
    show ?thesis
    proof (cases "a < remaining l")
      case True
      with False show ?thesis by simp
    next
      case ge: False
      then have nn: "0 \<le> a - remaining l" by simp
      from Cons.prems(3) have le: "a - remaining l \<le> sum_list (map remaining q)"
        by (simp add: diff_le_eq add.commute)
      from Cons.IH[OF rest nn le] False ge show ?thesis
        by (cases "consume (a - remaining l) q") simp
    qed
  qed
qed

text \<open>
  Claim C4. In the replay loop, let the next operation of the current platform be a Sell
  or a Withdrawal of a positive amount, and let the lots of the queue of its platform
  have positive remaining amounts. If the amount exceeds the total of the remaining
  amounts, the loop ends with \<^verbatim>\<open>RuntimeError\<close> after the error record that names the
  file, the line, the asset, the missing amount, the time and the platform; otherwise
  the pass for this operation returns without any log record. The queue is the one
  modelled from section 4.1 of the specification, over exact ordered arithmetic.
\<close>

theorem sell_shortfall_fatal:
  fixes op :: "('d::linordered_ab_group_add) operation"
  assumes "kind op = Sell \<or> kind op = Withdrawal"
    and "p \<noteq> []"
    and "map_of (platform_balance st) (platform op) = Some balance"
    and "map_of (platform_balanced_ops st) p = Some bops"
    and "\<forall>l\<in>set (queue balance). 0 < remaining l"
    and "0 < change op"
  shows "if sum_list (map remaining (queue balance)) < change op then
           replay cfg cn ((p, op # ops) # its) st =
             ([(ERROR, Msg_not_enough (file_path op) (line op) cn
                         (change op - sum_list (map remaining (queue balance)))
                         (utc_time op) (platform op))],
              Inl RuntimeError)
         else (\<exists>st'. replay_op cfg cn p op st = ([], Inr st'))"
proof (cases "sum_list (map remaining (queue balance)) < change op")
  case True
  have nz: "change op - sum_list (map remaining (queue balance)) \<noteq> 0"
    using True by simp
  from assms(1) show ?thesis
    using True assms(2,3) nz
    by (auto simp: replay_op_def balance_op_def balance_evaluate_sell_def
          consume_short[OF assms(5,6) True])
next
  case False
  then have le: "change op \<le> sum_list (map remaining (queue balance))" by simp
  have z: "fst (snd (consume (change op) (queue balance))) = 0"
    by (rule consume_covered[OF assms(5) less_imp_le[OF assms(6)] le])
  from assms(1) show ?thesis
    using False assms(3,4) z
    by (auto simp: replay_op_def balance_op_def balance_evaluate_sell_def split: prod.splits)
qed

text \<open>Claim C4 on a sell of 6 EOS against a queue that holds 5: one EOS is missing.\<close>

theorem sell_shortfall_fatal_witness:
  "(kind demo_sell = Sell \<or> kind demo_sell = Withdrawal)
   \<and> map_of (platform_balance demo_state) (platform demo_sell)
       = Some \<lparr> queue = [\<lparr> origin = demo_buy, remaining = 5 \<rparr>], buffer_fee = 0 \<rparr>
   \<and> 0 < change demo_sell
   \<and> replay demo_config ''EOS'' [(''kraken'', [demo_sell])] demo_state =
       ([(ERROR, Msg_not_enough ''statement.csv'' 1 ''EOS'' 1 \<lparr> year = 2021, in_year = 20 \<rparr>
                   ''kraken'')],
        Inl RuntimeError)"
proof -
  have h1: "kind demo_sell = Sell \<or> kind demo_sell = Withdrawal" by (simp add: demo_defs)
  have h2: "''kraken'' \<noteq> []" by simp
  have h3: "map_of (platform_balance demo_state) (platform demo_sell)
              = Some \<lparr> queue = [\<lparr> origin = demo_buy, remaining = 5 \<rparr>], buffer_fee = 0 \<rparr>"
    by (simp add: demo_defs)
  have h4: "map_of (platform_balanced_ops demo_state) ''kraken'' = Some [(demo_buy, None)]"
    by (simp add: demo_defs)
  have h5: "\<forall>l\<in>set (queue \<lparr> queue = [\<lparr> origin = demo_buy, remaining = 5 \<rparr>], buffer_fee = 0 \<rparr>).
              0 < remaining l" by simp
  have h6: "0 < change demo_sell" by (simp add: demo_defs)
  have s: "sum_list (map remaining
             (queue \<lparr> queue = [\<lparr> origin = demo_buy, remaining = (5::rat) \<rparr>], buffer_fee = 0 \<rparr>))
           < change demo_sell" by (simp add: demo_defs)
  from sell_shortfall_fatal[OF h1 h2 h3 h4 h5 h6, of demo_config "''EOS''" "[]" "[]"] s
  have "replay demo_config ''EOS'' [(''kraken'', [demo_sell])] demo_state =
          ([(ERROR, Msg_not_enough (file_path demo_sell) (line demo_sell) ''EOS''
               (change demo_sell - sum_list (map remaining
                  (queue \<lparr> queue = [\<lparr> origin = demo_buy, remaining = 5 \<rparr>], buffer_fee = 0 \<rparr>)))
               (utc_time demo_sell) (platform demo_sell))],
           Inl RuntimeError)"
    by (simp only: if_True)
  then have "replay demo_config ''EOS'' [(''kraken'', [demo_sell])] demo_state =
       ([(ERROR, Msg_not_enough ''statement.csv'' 1 ''EOS'' 1 \<lparr> year = 2021, in_year = 20 \<rparr>
                   ''kraken'')],
        Inl RuntimeError)"
    by (simp add: demo_sell_def demo_op_def)
  with h1 h3 h6 show ?thesis by blast
qed

subsection \<open>fill-in pass\<close>

lemma snd_fill_ops:
  "snd (fill_ops book ws bops) =
     (case find (\<lambda>bop. kind (fst bop) = Deposit) bops of
        None \<Rightarrow> Inr bops
      | Some bop \<Rightarrow>
          (case deposit_match book (fst bop) of
             None \<Rightarrow> Inl StopIteration
           | Some m \<Rightarrow> Inl TypeError))"
  by (induction bops)
     (auto simp: findWithdrawnCoins_def tuple_setitem_def split: option.splits sum.splits prod.splits)

lemma find_app:
  "find P (xs @ ys) = (case find P xs of None \<Rightarrow> find P ys | Some x \<Rightarrow> Some x)"
  by (induction xs) auto

lemma snd_fill_platforms_Cons:
  "snd (fill_platforms book ws ((p, bops) # rest)) =
     (case snd (fill_ops book ws bops) of
        Inl e \<Rightarrow> Inl e
      | Inr bops' \<Rightarrow>
          (case snd (fill_platforms book ws rest) of
             Inl e \<Rightarrow> Inl e
           | Inr rest' \<Rightarrow> Inr ((p, bops') # rest')))"
  by (simp split: prod.splits sum.splits)

lemma snd_fill_platforms:
  "snd (fill_platforms book ws d) =
     (case find (\<lambda>bop. kind (fst bop) = Deposit) (concat (map snd d)) of
        None \<Rightarrow> Inr d
      | Some bop \<Rightarrow>
          (case deposit_match book (fst bop) of
             None \<Rightarrow> Inl StopIteration
           | Some m \<Rightarrow> Inl TypeError))"
proof (induction d)
  case Nil
  then show ?case by simp
next
  case (Cons pb d)
  obtain p bops where pb: "pb = (p, bops)" by (cases pb)
  show ?case
    unfolding pb snd_fill_platforms_Cons snd_fill_ops Cons.IH
    by (simp add: find_app split: option.splits)
qed

subsection \<open>replay\<close>

lemma concat_update:
  "map_of d k = Some bops \<Longrightarrow>
     set (concat (map snd (AList.update k (bops @ [x]) d))) = set (concat (map snd d)) \<union> {x}"
  by (induction d) (auto split: if_splits)

lemma replay_op_ops:
  assumes "replay_op cfg cn p op st = (l, Inr st')"
  shows "fst ` set (concat (map snd (platform_balanced_ops st')))
           = fst ` set (concat (map snd (platform_balanced_ops st))) \<union> {op}"
proof -
  from assms obtain bops sc where
    m: "map_of (platform_balanced_ops st) p = Some bops"
    and u: "platform_balanced_ops st' = AList.update p (bops @ [(op, sc)]) (platform_balanced_ops st)"
    by (auto simp: replay_op_def split: option.splits sum.splits prod.splits)
  show ?thesis unfolding u concat_update[OF m] by auto
qed

lemma replay_ops:
  assumes "replay cfg cn its st = (l, Inr st')" and "\<forall>pi\<in>set its. fst pi \<noteq> []"
  shows "fst ` set (concat (map snd (platform_balanced_ops st')))
           = fst ` set (concat (map snd (platform_balanced_ops st))) \<union> set (concat (map snd its))"
  using assms
proof (induction cfg cn its st arbitrary: l st' rule: replay.induct)
  case (1 cfg cn st)
  then show ?case by simp
next
  case (2 cfg cn p its st)
  then show ?case by simp
next
  case (3 cfg cn p op ops its st)
  from "3.prems" have pne: "p \<noteq> []" by simp
  from "3.prems"(1) pne obtain l1 st1 l2 where
    r1: "replay_op cfg cn p op st = (l1, Inr st1)"
    and r2: "replay cfg cn ((p, ops) # its) st1 = (l2, Inr st')"
    by (auto split: prod.splits sum.splits)
  have ne: "\<forall>pi\<in>set ((p, ops) # its). fst pi \<noteq> []" using "3.prems"(2) by simp
  have "fst ` set (concat (map snd (platform_balanced_ops st')))
           = fst ` set (concat (map snd (platform_balanced_ops st1)))
             \<union> set (concat (map snd ((p, ops) # its)))"
    by (rule "3.IH"[OF pne r1[symmetric] refl r2 ne])
  then show ?case unfolding replay_op_ops[OF r1] by auto
qed

subsection \<open>group_by\<close>

lemma group_add_ops:
  "set (concat (map snd (group_add key d e))) = set (concat (map snd d)) \<union> {e}"
proof (cases "map_of d (key e)")
  case None
  then show ?thesis by (simp add: group_add_def)
next
  case (Some es)
  show ?thesis by (simp only: group_add_def Some option.case concat_update[OF Some])
qed

lemma group_add_keys: "fst ` set (group_add key d e) = fst ` set d \<union> {key e}"
  by (cases "map_of d (key e)") (auto simp: group_add_def dom_update)

lemma foldl_group_add_ops:
  "set (concat (map snd (foldl (group_add key) d lst))) = set (concat (map snd d)) \<union> set lst"
proof (induction lst arbitrary: d)
  case Nil
  show ?case by simp
next
  case (Cons e lst)
  show ?case by (simp only: foldl_Cons Cons.IH group_add_ops) auto
qed

lemma foldl_group_add_keys:
  "fst ` set (foldl (group_add key) d lst) = fst ` set d \<union> key ` set lst"
proof (induction lst arbitrary: d)
  case Nil
  show ?case by simp
next
  case (Cons e lst)
  show ?case by (simp only: foldl_Cons Cons.IH group_add_keys) auto
qed

lemma group_by_ops: "set (concat (map snd (group_by key lst))) = set lst"
  unfolding group_by_def foldl_group_add_ops by simp

lemma group_by_keys: "fst ` set (group_by key lst) = key ` set lst"
  unfolding group_by_def foldl_group_add_keys by simp

lemma initial_state_ops: "concat (map snd (platform_balanced_ops (initial_state d))) = []"
  by (induction d) (auto simp: initial_state_def)

lemma snd_balance_coin:
  assumes "ops \<noteq> []"
  shows "snd (balance_coin cfg book cn ops) =
     (case snd (replay cfg cn (group_by platform ops) (initial_state (group_by platform ops))) of
        Inl e \<Rightarrow> Inl e
      | Inr st \<Rightarrow> snd (fill_platforms book (withdrawals st) (platform_balanced_ops st)))"
proof -
  have "group_by platform ops \<noteq> []"
  proof
    assume e: "group_by platform ops = []"
    have "set (concat (map snd (group_by platform ops))) = {}" unfolding e by simp
    then have "set ops = {}" unfolding group_by_ops .
    with assms show False by simp
  qed
  then show ?thesis
    by (simp add: balance_coin_def Let_def snd_bind_res split: sum.splits)
qed

lemma find_SomeD: "find P xs = Some x \<Longrightarrow> x \<in> set xs \<and> P x"
  by (induction xs) (auto split: if_splits)

text \<open>
  Claim C9. If the operations of an asset contain a Deposit with a recorded match and
  no platform name is the empty string (for which the loop test \<^verbatim>\<open>while current_platform\<close>
  is false), \<^verbatim>\<open>_balance_coin\<close> does not return a value: it raises. If moreover every
  Deposit of the asset has a recorded match, the exception is the one that ended the
  replay loop, if any, and otherwise the \<^verbatim>\<open>TypeError\<close> of the assignment into the tuple.
\<close>

theorem matched_deposit_never_returns:
  fixes ops :: "('d::{zero,ord,plus,minus}) operation list"
  assumes "d \<in> set ops" and "kind d = Deposit" and "deposit_match book d \<noteq> None"
    and "\<forall>op\<in>set ops. platform op \<noteq> []"
  shows "(\<exists>e. snd (balance_coin cfg book cn ops) = Inl e)
       \<and> ((\<forall>op\<in>set ops. kind op = Deposit \<longrightarrow> deposit_match book op \<noteq> None)
            \<longrightarrow> snd (balance_coin cfg book cn ops) =
                 (case snd (replay cfg cn (group_by platform ops)
                              (initial_state (group_by platform ops))) of
                    Inl e \<Rightarrow> Inl e
                  | Inr st \<Rightarrow> Inl TypeError))"
proof -
  have ne: "ops \<noteq> []" using assms(1) by auto
  have keys: "\<forall>pi\<in>set (group_by platform ops). fst pi \<noteq> []"
  proof
    fix pi assume "pi \<in> set (group_by platform ops)"
    then have "fst pi \<in> fst ` set (group_by platform ops)" by (rule imageI)
    then have "fst pi \<in> platform ` set ops" by (simp only: group_by_keys)
    with assms(4) show "fst pi \<noteq> []" by auto
  qed
  have main: "fst ` set (concat (map snd (platform_balanced_ops st))) = set ops"
    if "replay cfg cn (group_by platform ops) (initial_state (group_by platform ops)) = (l, Inr st)"
    for l st
    unfolding replay_ops[OF that keys] initial_state_ops group_by_ops by simp
  show ?thesis
  proof (cases "replay cfg cn (group_by platform ops) (initial_state (group_by platform ops))")
    case (Pair l r)
    show ?thesis
    proof (cases r)
      case (Inl e)
      with Pair show ?thesis by (simp add: snd_balance_coin[OF ne])
    next
      case (Inr st)
      from main[OF Pair[unfolded Inr]] have all: "fst ` set (concat (map snd (platform_balanced_ops st))) = set ops" .
      from assms(1) have "d \<in> fst ` set (concat (map snd (platform_balanced_ops st)))"
        unfolding all .
      then obtain bop where b: "bop \<in> set (concat (map snd (platform_balanced_ops st)))"
        and bd: "fst bop = d" by (rule imageE) simp
      from b bd assms(2) have "find (\<lambda>bop. kind (fst bop) = Deposit)
                 (concat (map snd (platform_balanced_ops st))) \<noteq> None"
        unfolding find_None_iff by blast
      then obtain b1 where f: "find (\<lambda>bop. kind (fst bop) = Deposit)
                 (concat (map snd (platform_balanced_ops st))) = Some b1" by blast
      from find_SomeD[OF f] have b1: "b1 \<in> set (concat (map snd (platform_balanced_ops st)))"
        and k1: "kind (fst b1) = Deposit" by simp_all
      from b1 have "fst b1 \<in> fst ` set (concat (map snd (platform_balanced_ops st)))"
        by (rule imageI)
      then have in_ops: "fst b1 \<in> set ops" unfolding all .
      have res: "snd (balance_coin cfg book cn ops) =
                   (case deposit_match book (fst b1) of
                      None \<Rightarrow> Inl StopIteration | Some m \<Rightarrow> Inl TypeError)"
        by (simp add: snd_balance_coin[OF ne] Pair Inr snd_fill_platforms f)
      have c1: "\<exists>e. snd (balance_coin cfg book cn ops) = Inl e"
        unfolding res by (cases "deposit_match book (fst b1)") simp_all
      have c2: "snd (balance_coin cfg book cn ops) = Inl TypeError"
        if "\<forall>op\<in>set ops. kind op = Deposit \<longrightarrow> deposit_match book op \<noteq> None"
      proof -
        from that in_ops k1 have "deposit_match book (fst b1) \<noteq> None" by blast
        then show ?thesis unfolding res by (cases "deposit_match book (fst b1)") simp_all
      qed
      from c1 c2 show ?thesis by (simp add: Pair Inr)
    qed
  qed
qed

subsection \<open>The transfer example\<close>

lemmas balance_defs = group_by_def group_add_def initial_state_def empty_queue_def replay_op_def
  balance_op_def balance_evaluate_sell_def put_def remove_fee_def

lemma demo_transfer_groups:
  "group_by platform demo_transfer =
     [(''kraken'', [demo_buy, demo_withdrawal]), (''binance'', [demo_deposit, demo_sell_binance])]"
  by (simp add: demo_defs group_by_def group_add_def)

lemma demo_transfer_replay:
  "snd (replay demo_config ''EOS'' (group_by platform demo_transfer)
          (initial_state (group_by platform demo_transfer))) =
   Inr \<lparr> platform_balance =
           [(''kraken'', \<lparr> queue = [\<lparr> origin = demo_buy, remaining = 3 \<rparr>], buffer_fee = 0 \<rparr>),
            (''binance'', \<lparr> queue = [], buffer_fee = 0 \<rparr>)],
         platform_balanced_ops =
           [(''kraken'', [(demo_buy, None),
                          (demo_withdrawal, Some [\<lparr> sc_op = demo_buy, sold = 2 \<rparr>])]),
            (''binance'', [(demo_deposit, None),
                           (demo_sell_binance, Some [\<lparr> sc_op = demo_deposit, sold = 2 \<rparr>])])],
         withdrawals = [(demo_withdrawal, [\<lparr> sc_op = demo_buy, sold = 2 \<rparr>])] \<rparr>"
  unfolding demo_transfer_groups
  by (simp add: demo_defs initial_state_def empty_queue_def replay_op_def
        balance_op_def balance_evaluate_sell_def put_def remove_fee_def)

lemma demo_transfer_balance:
  "snd (balance_coin demo_config demo_book ''EOS'' demo_transfer) = Inl TypeError"
proof -
  have ne: "demo_transfer \<noteq> []" by (simp add: demo_transfer_def)
  show ?thesis
    unfolding snd_balance_coin[OF ne] demo_transfer_replay
    by (simp add: findWithdrawnCoins_def tuple_setitem_def deposit_match_def demo_defs)
qed

text \<open>Claim C9 on the transfer example: the matched deposit ends the replay with \<^verbatim>\<open>TypeError\<close>.\<close>

theorem matched_deposit_never_returns_witness:
  "demo_deposit \<in> set demo_transfer \<and> kind demo_deposit = Deposit
   \<and> deposit_match demo_book demo_deposit \<noteq> None
   \<and> snd (balance_coin demo_config demo_book ''EOS'' demo_transfer) = Inl TypeError"
proof -
  have h1: "demo_deposit \<in> set demo_transfer" by (simp add: demo_transfer_def)
  have h2: "kind demo_deposit = Deposit" by (simp add: demo_defs)
  have h3: "deposit_match demo_book demo_deposit \<noteq> None"
    by (simp add: deposit_match_def demo_defs)
  have h4: "\<forall>op\<in>set demo_transfer. platform op \<noteq> []" by (simp add: demo_defs)
  have a: "\<forall>op\<in>set demo_transfer. kind op = Deposit \<longrightarrow> deposit_match demo_book op \<noteq> None"
    by (simp add: deposit_match_def demo_defs)
  from matched_deposit_never_returns[OF h1 h2 h3 h4, of demo_config "''EOS''"] a
  have "snd (balance_coin demo_config demo_book ''EOS'' demo_transfer) =
          (case snd (replay demo_config ''EOS'' (group_by platform demo_transfer)
                       (initial_state (group_by platform demo_transfer))) of
             Inl e \<Rightarrow> Inl e
           | Inr st \<Rightarrow> Inl TypeError)"
    by blast
  then have "snd (balance_coin demo_config demo_book ''EOS'' demo_transfer) = Inl TypeError"
    unfolding demo_transfer_replay by simp
  with h1 h2 h3 show ?thesis by blast
qed

text \<open>
  Claim C2, evaluated on the transfer example. The deposit has a recorded match, yet the
  replay puts a lot whose origin is the deposit itself into the queue of the destination
  platform: the sell on that platform consumes a portion whose origin is the deposit
  (time 41 of the year) and not the purchase (time 0) that the withdrawal consumed. The
  sold coins of the withdrawal are only kept in the list of withdrawals, and the pass
  that should hand them to the deposit raises \<^verbatim>\<open>TypeError\<close>.
\<close>

theorem deposit_lot_dated_at_deposit:
  "snd (replay demo_config ''EOS'' (group_by platform demo_transfer)
          (initial_state (group_by platform demo_transfer))) =
   Inr \<lparr> platform_balance =
           [(''kraken'', \<lparr> queue = [\<lparr> origin = demo_buy, remaining = 3 \<rparr>], buffer_fee = 0 \<rparr>),
            (''binance'', \<lparr> queue = [], buffer_fee = 0 \<rparr>)],
         platform_balanced_ops =
           [(''kraken'', [(demo_buy, None),
                          (demo_withdrawal, Some [\<lparr> sc_op = demo_buy, sold = 2 \<rparr>])]),
            (''binance'', [(demo_deposit, None),
                           (demo_sell_binance, Some [\<lparr> sc_op = demo_deposit, sold = 2 \<rparr>])])],
         withdrawals = [(demo_withdrawal, [\<lparr> sc_op = demo_buy, sold = 2 \<rparr>])] \<rparr>
   \<and> utc_time demo_deposit = \<lparr> year = 2021, in_year = 41 \<rparr>
   \<and> utc_time demo_buy = \<lparr> year = 2021, in_year = 0 \<rparr>
   \<and> snd (balance_coin demo_config demo_book ''EOS'' demo_transfer) = Inl TypeError"
  using demo_transfer_replay demo_transfer_balance by (simp add: demo_defs)

text \<open>
  Claim C3, evaluated on a book with one deposit and no recorded match: the generator of
  \<^verbatim>\<open>findWithdrawnCoins\<close> yields nothing, \<^verbatim>\<open>next\<close> raises \<^verbatim>\<open>StopIteration\<close>, and the
  exception ends \<^verbatim>\<open>_balance_coin\<close> and \<^verbatim>\<open>evaluate_taxation\<close>.
\<close>

theorem unmatched_deposit_raises:
  "balance_coin demo_config demo_book_unmatched ''EOS'' [demo_deposit] =
    ([(DEBUG, Msg_text ''DEPOSIT''), (DEBUG, Msg_text ''Filling in Deposits''),
      (DEBUG, Msg_text ''binance''), (DEBUG, Msg_type Deposit),
      (DEBUG, Msg_text ''Found deposit''), (DEBUG, Msg_bop demo_deposit None)],
     Inl StopIteration)
   \<and> snd (evaluate_taxation demo_config demo_prices demo_book_unmatched) = Inl StopIteration"
  by (simp add: evaluate_taxation_def evaluate_coin_def sort_operations_def
        balance_coin_def bind_res_def demo_defs balance_defs findWithdrawnCoins_def
        deposit_match_def fee_warnings_def)

section \<open>Properties of \<^verbatim>\<open>evaluate_taxation\<close>\<close>

lemma map_of_group_add:
  "map_of (group_add key d e) k =
     (if k = key e then Some ((case map_of d k of None \<Rightarrow> [] | Some es \<Rightarrow> es) @ [e])
      else map_of d k)"
proof (cases "map_of d (key e)")
  case None
  then show ?thesis
    by (auto simp: group_add_def map_of_append map_add_def split: option.splits)
next
  case (Some es)
  then show ?thesis by (simp add: group_add_def update_conv')
qed

lemma distinct_group_add:
  "distinct (map fst d) \<Longrightarrow> distinct (map fst (group_add key d e))"
proof (cases "map_of d (key e)")
  case None
  assume "distinct (map fst d)"
  moreover from None have "key e \<notin> fst ` set d" by (simp add: map_of_eq_None_iff)
  ultimately show ?thesis using None by (simp add: group_add_def)
next
  case (Some es)
  assume "distinct (map fst d)"
  then show ?thesis using Some by (simp add: group_add_def distinct_update)
qed

lemma map_of_foldl_group_add:
  "map_of (foldl (group_add key) d lst) k =
     (if filter (\<lambda>e. key e = k) lst = [] then map_of d k
      else Some ((case map_of d k of None \<Rightarrow> [] | Some es \<Rightarrow> es) @ filter (\<lambda>e. key e = k) lst))"
proof (induction lst arbitrary: d)
  case Nil
  show ?case by simp
next
  case (Cons e lst)
  show ?case
    by (simp only: foldl_Cons Cons.IH map_of_group_add) (auto split: option.splits)
qed

lemma distinct_foldl_group_add:
  "distinct (map fst d) \<Longrightarrow> distinct (map fst (foldl (group_add key) d lst))"
  by (induction lst arbitrary: d) (simp_all add: distinct_group_add)

lemma map_of_group_by:
  "map_of (group_by key lst) k =
     (if filter (\<lambda>e. key e = k) lst = [] then None else Some (filter (\<lambda>e. key e = k) lst))"
  by (simp add: group_by_def map_of_foldl_group_add)

lemma distinct_group_by: "distinct (map fst (group_by key lst))"
  by (simp add: group_by_def distinct_foldl_group_add)

lemma evaluate_coins_none:
  "map_of gs ''EOS'' = None \<Longrightarrow> evaluate_coins cfg pd book gs = ([], Inr [])"
proof (induction gs)
  case Nil
  show ?case by simp
next
  case (Cons g gs)
  obtain cn ops where g: "g = (cn, ops)" by (cases g)
  from Cons.prems have ne: "cn \<noteq> ''EOS''" and rest: "map_of gs ''EOS'' = None"
    by (auto simp: g split: if_splits)
  show ?case by (simp add: g evaluate_coin_def ne Cons.IH[OF rest])
qed

lemma evaluate_coins_EOS:
  assumes "distinct (map fst gs)"
  shows "evaluate_coins cfg pd book gs =
           (case map_of gs ''EOS'' of
              None \<Rightarrow> ([], Inr [])
            | Some eos \<Rightarrow> evaluate_coin cfg pd book ''EOS'' eos)"
  using assms
proof (induction gs)
  case Nil
  show ?case by simp
next
  case (Cons g gs)
  obtain cn ops where g: "g = (cn, ops)" by (cases g)
  from Cons.prems have d: "distinct (map fst gs)" and nin: "cn \<notin> fst ` set gs" by (simp_all add: g)
  show ?case
  proof (cases "cn = ''EOS''")
    case True
    from nin True have "map_of gs ''EOS'' = None" by (simp add: map_of_eq_None_iff)
    then have r: "evaluate_coins cfg pd book gs = ([], Inr [])" by (rule evaluate_coins_none)
    obtain l x where e: "evaluate_coin cfg pd book ''EOS'' ops = (l, x)"
      by (cases "evaluate_coin cfg pd book ''EOS'' ops")
    show ?thesis by (cases x) (simp_all add: g True r e)
  next
    case False
    obtain l x where e: "evaluate_coins cfg pd book gs = (l, x)"
      by (cases "evaluate_coins cfg pd book gs")
    have c: "evaluate_coin cfg pd book cn ops = ([], Inr [])" using False by (simp add: evaluate_coin_def)
    have "evaluate_coins cfg pd book (g # gs) = evaluate_coins cfg pd book gs"
      by (cases x) (simp_all add: g c e)
    with False Cons.IH[OF d] show ?thesis by (simp add: g)
  qed
qed

text \<open>
  What \<^verbatim>\<open>evaluate_taxation\<close> hands to the classification function is a dictionary. Its
  loop then draws the platform names, and the first one ends it: unpacking raises
  \<^verbatim>\<open>ValueError\<close> unless the name has two characters, and a name of two characters
  reaches the last branch, which raises \<^verbatim>\<open>NotImplementedError\<close>.
\<close>

lemma platform_dict_raises:
  "evaluate_taxation_GERMANY cfg pd cn (Platform_dict ((p, bops) # d)) =
     ([], Inl (if length p \<noteq> 2 then ValueError else NotImplementedError))"
  by (simp add: evaluate_taxation_GERMANY_def)

text \<open>
  Which operations \<^verbatim>\<open>evaluate_taxation\<close> looks at: the test on the symbol in lines
  392--396 lets the operations in EOS through and skips every other group.
\<close>

lemma evaluate_taxation_EOS:
  "evaluate_taxation cfg pd book =
     (if filter (\<lambda>op. coin op = ''EOS'') (operations book) = [] then
        ([(DEBUG, Msg_text ''Starting evaluation...'')], Inr [])
      else
        bind_res ([(DEBUG, Msg_text ''Starting evaluation...'')], Inr ())
          (\<lambda>u. bind_res
                  (balance_coin cfg book ''EOS''
                     (sort_operations (filter (\<lambda>op. coin op = ''EOS'') (operations book))))
                  (\<lambda>platform_balanced_ops.
                     if MULTI_DEPOT cfg then
                       evaluate_taxation_GERMANY cfg pd ''EOS'' (Platform_dict platform_balanced_ops)
                     else
                       evaluate_taxation_GERMANY cfg pd ''EOS''
                         (Platform_dict [(''virtual'', concat (map snd platform_balanced_ops))]))))"
  by (simp add: evaluate_taxation_def evaluate_coins_EOS[OF distinct_group_by] map_of_group_by
        evaluate_coin_def bind_res_def)

text \<open>The transfer example ends in the \<^verbatim>\<open>TypeError\<close> of the fill-in pass.\<close>

lemma demo_transfer_taxation:
  "filter (\<lambda>op. coin op = ''EOS'') (operations demo_book) = demo_transfer
   \<and> sort_operations demo_transfer = demo_transfer
   \<and> snd (evaluate_taxation demo_config demo_prices demo_book) = Inl TypeError"
proof -
  have f: "filter (\<lambda>op. coin op = ''EOS'') (operations demo_book) = demo_transfer"
    by (simp add: demo_defs)
  have s: "sort_operations demo_transfer = demo_transfer"
    by (simp add: sort_operations_def dt_le_def demo_defs)
  have ne: "demo_transfer \<noteq> []" by (simp add: demo_transfer_def)
  have "evaluate_taxation demo_config demo_prices demo_book =
          bind_res ([(DEBUG, Msg_text ''Starting evaluation...'')], Inr ())
            (\<lambda>u. bind_res (balance_coin demo_config demo_book ''EOS'' demo_transfer)
                    (\<lambda>platform_balanced_ops.
                       if MULTI_DEPOT demo_config then
                         evaluate_taxation_GERMANY demo_config demo_prices ''EOS''
                           (Platform_dict platform_balanced_ops)
                       else
                         evaluate_taxation_GERMANY demo_config demo_prices ''EOS''
                           (Platform_dict [(''virtual'', concat (map snd platform_balanced_ops))])))"
    using evaluate_taxation_EOS[of demo_config demo_prices demo_book] ne
    unfolding f s by (simp only: if_False)
  then have "snd (evaluate_taxation demo_config demo_prices demo_book) = Inl TypeError"
    by (simp add: snd_bind_res demo_transfer_balance)
  with f s show ?thesis by blast
qed

text \<open>
  A book whose only operation buys 5 EOS: the replay returns, and the loop of the
  classification function then meets the platform name instead of a pair and raises
  \<^verbatim>\<open>ValueError\<close>, although the classification of the balanced operation yields an event.
\<close>

lemma eos_book_raises:
  "snd (evaluate_taxation demo_config demo_prices demo_eos_book) = Inl ValueError
   \<and> snd (balance_coin demo_config demo_eos_book ''EOS'' [demo_buy]) =
       Inr [(''kraken'', [(demo_buy, None)])]
   \<and> evaluate_taxation_GERMANY demo_config demo_prices ''EOS'' (Pair_list [(demo_buy, None)]) =
       ([], Inr [\<lparr> taxation_type = Kauf, taxed_gain = 0, tx_op = demo_buy, is_taxable = False,
                   sell_value = 0, real_gain = 0, remark = Buy_remark 75 ''EUR'' 15 ''EOS'' \<rparr>])"
  by (simp add: evaluate_taxation_def evaluate_coin_def sort_operations_def balance_coin_def
        bind_res_def balance_defs fee_warnings_def evaluate_taxation_GERMANY_def eval_defs
        demo_defs)

text \<open>
  Claim C1, evaluated on a book whose only operation buys 1 BTC. The claim says that the
  operations of every asset of the book are replayed and classified into the tax events
  of that asset, whatever its symbol. Here \<^verbatim>\<open>evaluate_taxation\<close> returns with no tax event:
  the test \<^verbatim>\<open>coin == "EOS"\<close> skips the asset, although the classification of its
  operation yields an event.
\<close>

theorem other_asset_is_skipped:
  "evaluate_taxation demo_config demo_prices demo_btc_book =
     ([(DEBUG, Msg_text ''Starting evaluation...'')], Inr [])
   \<and> evaluate_taxation_GERMANY demo_config demo_prices ''BTC'' (Pair_list [(demo_btc_buy, None)]) =
     ([], Inr [\<lparr> taxation_type = Kauf, taxed_gain = 0, tx_op = demo_btc_buy, is_taxable = False,
                 sell_value = 0, real_gain = 0, remark = Buy_remark 15 ''EUR'' 15 ''BTC'' \<rparr>])"
  by (simp add: evaluate_taxation_def evaluate_coin_def bind_res_def group_by_def group_add_def
        evaluate_taxation_GERMANY_def eval_defs demo_defs)

end
